theory Spec2Isabelle
  imports Main "HOL-Library.Word"
begin

unbundle bit_operations_syntax

section \<open>Machine types and constants of the x86 build\<close>

text \<open>
  The page-table layer of the sources is the 32-bit x86 one (kernel/mm/x86/mapping.c), so
  \<open>UINTN\<close> and \<open>ULONG\<close> are 32-bit words; \<open>ULONGLONG\<close> and \<open>PHYSICAL_ADDRESS\<close>
  are 64-bit words. Arithmetic on them wraps as in C. \<open>MmPageShift()\<close> and
  \<open>MmPageSize()\<close> return the x86 constants \<open>PAGE_SHIFT\<close> and \<open>PAGE_SIZE\<close>.
\<close>

type_synonym uintn = "32 word"
type_synonym ulong = "32 word"
type_synonym ulonglong = "64 word"
type_synonym physical_address = "64 word"

definition PAGE_SHIFT :: nat where
  "PAGE_SHIFT = 12"

definition PAGE_SIZE :: "64 word" where
  "PAGE_SIZE = 4096"

definition MAX_PHYSICAL_PAGE_LOCK_COUNT :: nat where
  "MAX_PHYSICAL_PAGE_LOCK_COUNT = 15"

definition PHYSICAL_PAGE_FLAG_NON_PAGED :: uintn where
  "PHYSICAL_PAGE_FLAG_NON_PAGED = 1"

definition PHYSICAL_PAGE_FREE :: uintn where
  "PHYSICAL_PAGE_FREE = 0"

definition PHYSICAL_MEMORY_MAX_PAGE_OUT_FAILURE_COUNT :: ulong where
  "PHYSICAL_MEMORY_MAX_PAGE_OUT_FAILURE_COUNT = 10"

definition PAGING_EVENT_SIGNAL_PAGE_COUNT :: ulonglong where
  "PAGING_EVENT_SIGNAL_PAGE_COUNT = 16"

definition PHYSICAL_MEMORY_ALLOCATION_TIMEOUT :: ulonglong where
  "PHYSICAL_MEMORY_ALLOCATION_TIMEOUT = 180"

section \<open>The physical page database (kernel/mm/physical.c)\<close>

text \<open>
  A \<open>PHYSICAL_PAGE\<close> is a union of one machine word: zero when the page is free, a
  value with bit 0 set when it is non-paged (the rest being a page cache entry pointer or
  nothing), and otherwise the address of a paging entry. A segment header is followed in
  memory by the array of its pages; the model keeps that array in the field \<open>Pages\<close>.
  The segment ring is a list in ring order, starting at \<open>MmPhysicalSegmentListHead.Next\<close>;
  a pointer to a segment is its position in the list.

  Paging entries belong to the image section code; physical.c reaches them through the
  pointer stored in the page, so they live in a store indexed by address. Their structure
  is declared in a header that is not part of the sources at hand: the model keeps the
  fields physical.c uses, with the lock count as a natural number (the cap keeps it at
  most 15) and the "paging out" flag as a boolean.
\<close>

datatype mm_error = AssertionFailed | AccessViolation | OutOfFuel | CrashOutOfMemory
  | UndefinedBehaviour

datatype kstatus = STATUS_SUCCESS | STATUS_RESOURCE_IN_USE | STATUS_NOT_FOUND
  | STATUS_NO_MEMORY | STATUS_OTHER_FAILURE

datatype memory_warning_level = MemoryWarningLevelNone | MemoryWarningLevel1
  | MemoryWarningLevel2

record paging_entry =
  Section :: uintn
  SectionOffset :: uintn
  LockCount :: nat
  PagingOut :: bool

record physical_memory_segment =
  StartAddress :: physical_address
  EndAddress :: physical_address
  FreePages :: ulonglong
  Pages :: "uintn list"

record mm_state =
  Segments :: "physical_memory_segment list"
  PagingEntries :: "uintn \<rightharpoonup> paging_entry"
  MmTotalPhysicalPages :: uintn
  MmTotalAllocatedPhysicalPages :: uintn
  MmMinimumFreePhysicalPages :: uintn
  MmNonPagedPhysicalPages :: uintn
  MmLastAllocatedSegment :: nat
  MmLastAllocatedSegmentOffset :: uintn
  MmLastPagedSegment :: nat
  MmLastPagedSegmentOffset :: ulonglong
  MmPhysicalMemoryWarningLevel :: memory_warning_level
  MmPhysicalMemoryWarningLevel1HighPages :: ulonglong
  MmPhysicalMemoryWarningLevel1LowPages :: ulonglong
  MmPhysicalMemoryWarningLevel2HighPages :: ulonglong
  MmPhysicalMemoryWarningLevel2LowPages :: ulonglong
  MmPhysicalMemoryWarningCountMask :: uintn
  MmPhysicalMemoryAllocationCount :: uintn
  MmPhysicalMemoryFreeCount :: uintn

text \<open>
  The loop every routine starts with: walk the ring for the first segment whose address
  range holds the physical address. The result is the segment's position.
\<close>

fun find_segment :: "physical_memory_segment list \<Rightarrow> physical_address \<Rightarrow> nat \<Rightarrow> nat option" where
  "find_segment [] pa k = None"
| "find_segment (g # gs) pa k =
     (if StartAddress g \<le> pa \<and> pa < EndAddress g then Some k
      else find_segment gs pa (Suc k))"

text \<open>\<open>Offset = (PhysicalAddress - Segment->StartAddress) >> PageShift\<close>.\<close>

definition page_offset :: "physical_memory_segment \<Rightarrow> physical_address \<Rightarrow> nat" where
  "page_offset g pa = unat (drop_bit PAGE_SHIFT (pa - StartAddress g))"

subsection \<open>Page cache entries\<close>



text \<open>The record of the frame at a physical address, as the lookups above find it.\<close>

definition physical_page :: "mm_state \<Rightarrow> physical_address \<Rightarrow> uintn option" where
  "physical_page s pa =
     (case find_segment (Segments s) pa 0 of
        None \<Rightarrow> None
      | Some k \<Rightarrow>
          (let g = Segments s ! k; off = page_offset g pa in
           if off < length (Pages g) then Some (Pages g ! off) else None))"

subsection \<open>Freeing pages\<close>

text \<open>
  The state of the loop in \<open>MmFreePhysicalPages\<close>: the database, the local
  \<open>ReleasedPhysicalPage\<close> and \<open>SignalEvent\<close>, and the local list of paging entries
  queued with \<open>INSERT_BEFORE\<close> (appended at the tail).
\<close>

record free_loop_state =
  fl_mm :: mm_state
  fl_ReleasedPhysicalPage :: bool
  fl_SignalEvent :: bool
  fl_PagingEntryList :: "uintn list"

definition set_page :: "mm_state \<Rightarrow> nat \<Rightarrow> nat \<Rightarrow> uintn \<Rightarrow> mm_state" where
  "set_page s k i v =
     s\<lparr>Segments := (Segments s)[k := (Segments s ! k)\<lparr>Pages := (Pages (Segments s ! k))[i := v]\<rparr>]\<rparr>"

text \<open>
  The block "If the page was set free, then update the appropriate metrics", entered when
  \<open>ReleasedPhysicalPage\<close> is set: the counters, then the periodic warning check.
\<close>

definition free_update_metrics :: "nat \<Rightarrow> free_loop_state \<Rightarrow> mm_error + free_loop_state" where
  "free_update_metrics k st =
     (let s = fl_mm st;
          s1 = s\<lparr>MmTotalAllocatedPhysicalPages := MmTotalAllocatedPhysicalPages s - 1\<rparr>
      in if \<not> MmTotalAllocatedPhysicalPages s1 \<le> MmTotalPhysicalPages s1 then Inl AssertionFailed
      else
        let g = Segments s1 ! k;
            s2 = s1\<lparr>Segments := (Segments s1)[k := g\<lparr>FreePages := FreePages g + 1\<rparr>],
                     MmPhysicalMemoryFreeCount := MmPhysicalMemoryFreeCount s1 + 1\<rparr>
        in if \<not> fl_SignalEvent st \<and>
              MmPhysicalMemoryFreeCount s2 AND MmPhysicalMemoryWarningCountMask s2 = 0
           then
             if MmPhysicalMemoryWarningLevel s2 = MemoryWarningLevel2 \<and>
                ucast (MmTotalAllocatedPhysicalPages s2) < MmPhysicalMemoryWarningLevel2LowPages s2
             then Inr (st\<lparr>fl_mm := s2\<lparr>MmPhysicalMemoryWarningLevel := MemoryWarningLevelNone\<rparr>,
                         fl_SignalEvent := True\<rparr>)
             else if MmPhysicalMemoryWarningLevel s2 = MemoryWarningLevel1 \<and>
                ucast (MmTotalAllocatedPhysicalPages s2) < MmPhysicalMemoryWarningLevel1LowPages s2
             then Inr (st\<lparr>fl_mm := s2\<lparr>MmPhysicalMemoryWarningLevel := MemoryWarningLevel2\<rparr>,
                         fl_SignalEvent := True\<rparr>)
             else Inr (st\<lparr>fl_mm := s2\<rparr>)
           else Inr (st\<lparr>fl_mm := s2\<rparr>))"

text \<open>
  One iteration of the \<open>for\<close> loop, on the page at index \<open>i\<close> of segment \<open>k\<close>.
  \<open>ReleasedPhysicalPage\<close> is assigned only where the source assigns it.
\<close>

definition free_one_page :: "nat \<Rightarrow> nat \<Rightarrow> free_loop_state \<Rightarrow> mm_error + free_loop_state" where
  "free_one_page k i st =
     (let s = fl_mm st; g = Segments s ! k in
      if length (Pages g) \<le> i then Inl AccessViolation
      else
        let page = Pages g ! i in
        if page = PHYSICAL_PAGE_FREE then Inl AssertionFailed
        else
          let r =
            (if page AND PHYSICAL_PAGE_FLAG_NON_PAGED \<noteq> 0 then
               Inr (st\<lparr>fl_mm := (set_page s k i PHYSICAL_PAGE_FREE)
                            \<lparr>MmNonPagedPhysicalPages := MmNonPagedPhysicalPages s - 1\<rparr>,
                        fl_ReleasedPhysicalPage := True\<rparr>)
             else
               (case PagingEntries s page of
                  None \<Rightarrow> Inl AccessViolation
                | Some pe \<Rightarrow>
                    if \<not> PagingOut pe then
                      if LockCount pe \<noteq> 0 then Inl AssertionFailed
                      else Inr (st\<lparr>fl_mm := set_page s k i PHYSICAL_PAGE_FREE,
                                   fl_ReleasedPhysicalPage := True,
                                   fl_PagingEntryList := fl_PagingEntryList st @ [page]\<rparr>)
                    else Inr st))
          in case r of
               Inl e \<Rightarrow> Inl e
             | Inr st1 \<Rightarrow>
                 if fl_ReleasedPhysicalPage st1 then free_update_metrics k st1 else Inr st1)"

fun free_loop :: "nat \<Rightarrow> nat \<Rightarrow> nat \<Rightarrow> free_loop_state \<Rightarrow> mm_error + free_loop_state" where
  "free_loop k i 0 st = Inr st"
| "free_loop k i (Suc n) st =
     (case free_one_page k i st of
        Inl e \<Rightarrow> Inl e
      | Inr st1 \<Rightarrow> free_loop k (Suc i) n st1)"

text \<open>
  \<open>MmFreePhysicalPages\<close>. The result is the database, the paging entries handed to
  \<open>MmpDestroyPagingEntry\<close> after the lock is released (that routine belongs to the image
  section code), and whether the warning event is pulsed.
\<close>

definition MmFreePhysicalPages ::
  "mm_state \<Rightarrow> physical_address \<Rightarrow> ulonglong \<Rightarrow> mm_error + (mm_state \<times> uintn list \<times> bool)" where
  "MmFreePhysicalPages s pa PageCount =
     (case find_segment (Segments s) pa 0 of
        None \<Rightarrow> Inl AssertionFailed
      | Some k \<Rightarrow>
          (let g = Segments s ! k in
           if \<not> pa + push_bit PAGE_SHIFT PageCount \<le> EndAddress g then Inl AssertionFailed
           else
             case free_loop k (page_offset g pa) (unat PageCount)
                    \<lparr>fl_mm = s, fl_ReleasedPhysicalPage = False, fl_SignalEvent = False,
                     fl_PagingEntryList = []\<rparr> of
               Inl e \<Rightarrow> Inl e
             | Inr st \<Rightarrow> Inr (fl_mm st, fl_PagingEntryList st, fl_SignalEvent st)))"

subsection \<open>Searching the database\<close>

datatype physical_memory_search_type = PhysicalMemoryFindInvalid | PhysicalMemoryFindFree
  | PhysicalMemoryFindPagable | PhysicalMemoryFindIdentityMappable

text \<open>
  \<open>ALIGN_RANGE_DOWN\<close> and \<open>ALIGN_RANGE_UP\<close> are the kernel's mask-based macros for a
  power-of-two size: \<open>value & ~(size - 1)\<close> and the same applied to
  \<open>value + size - 1\<close>.
\<close>

definition ALIGN_RANGE_DOWN :: "ulonglong \<Rightarrow> ulonglong \<Rightarrow> ulonglong" where
  "ALIGN_RANGE_DOWN v a = v AND NOT (a - 1)"

definition ALIGN_RANGE_UP :: "ulonglong \<Rightarrow> ulonglong \<Rightarrow> ulonglong" where
  "ALIGN_RANGE_UP v a = ALIGN_RANGE_DOWN (v + a - 1) a"

definition start_page :: "physical_memory_segment \<Rightarrow> ulonglong" where
  "start_page g = drop_bit PAGE_SHIFT (StartAddress g)"

definition segment_page_count :: "physical_memory_segment \<Rightarrow> ulonglong" where
  "segment_page_count g = drop_bit PAGE_SHIFT (EndAddress g - StartAddress g)"

text \<open>
  The inner \<open>for\<close> loop of \<open>MmpFindPhysicalPages\<close> over \<open>SpanCount\<close>, with \<open>n\<close>
  iterations left. It stops at the first unsuitable page without counting it. A search for
  pagable pages sets the "paging out" flag of every page it accepts. The identity search
  asks the kernel's virtual space accounting (\<open>MmpIsAccountingRangeFree\<close>, here the
  predicate \<open>vafree\<close>) about the address of the span's first page.
\<close>

fun find_span ::
  "physical_memory_search_type \<Rightarrow> (uintn \<Rightarrow> bool) \<Rightarrow> physical_memory_segment \<Rightarrow> ulonglong \<Rightarrow>
   nat \<Rightarrow> ulonglong \<Rightarrow> (uintn \<rightharpoonup> paging_entry) \<Rightarrow>
   mm_error + (ulonglong \<times> (uintn \<rightharpoonup> paging_entry))" where
  "find_span ty vafree g Offset 0 SpanCount h = Inr (SpanCount, h)"
| "find_span ty vafree g Offset (Suc n) SpanCount h =
     (let i = unat (Offset + SpanCount) in
      if length (Pages g) \<le> i then Inl AccessViolation
      else
        let page = Pages g ! i in
        case ty of
          PhysicalMemoryFindFree \<Rightarrow>
            if page \<noteq> PHYSICAL_PAGE_FREE then Inr (SpanCount, h)
            else find_span ty vafree g Offset n (SpanCount + 1) h
        | PhysicalMemoryFindPagable \<Rightarrow>
            if page = PHYSICAL_PAGE_FREE \<or> page AND PHYSICAL_PAGE_FLAG_NON_PAGED \<noteq> 0
            then Inr (SpanCount, h)
            else
              (case h page of
                 None \<Rightarrow> Inl AccessViolation
               | Some pe \<Rightarrow>
                   if LockCount pe \<noteq> 0 then Inr (SpanCount, h)
                   else find_span ty vafree g Offset n (SpanCount + 1)
                          (h(page \<mapsto> pe\<lparr>PagingOut := True\<rparr>)))
        | PhysicalMemoryFindIdentityMappable \<Rightarrow>
            if page \<noteq> PHYSICAL_PAGE_FREE then Inr (SpanCount, h)
            else if \<not> vafree (ucast (StartAddress g + push_bit PAGE_SHIFT Offset))
            then Inr (SpanCount, h)
            else find_span ty vafree g Offset n (SpanCount + 1) h
        | PhysicalMemoryFindInvalid \<Rightarrow> Inl AssertionFailed)"

text \<open>
  The \<open>do ... while\<close> loop. Each unfolding is one pass through the body; a pass that
  does not return ends at the loop condition
  \<open>(Segment != LastSegment) || (Offset != FirstOffset)\<close>. The first argument bounds the
  number of passes. The result is the segment found with \<open>SelectedPageOffset\<close> and
  \<open>PagesFound\<close>, or \<open>None\<close> for \<open>NULL\<close>, and the database with the cursor moved.
\<close>

fun find_loop ::
  "nat \<Rightarrow> physical_memory_search_type \<Rightarrow> (uintn \<Rightarrow> bool) \<Rightarrow> ulonglong \<Rightarrow> ulonglong \<Rightarrow>
   nat \<Rightarrow> ulonglong \<Rightarrow> mm_state \<Rightarrow> nat \<Rightarrow> ulonglong \<Rightarrow> bool \<Rightarrow>
   mm_error + ((nat \<times> ulonglong \<times> ulonglong) option \<times> mm_state)" where
  "find_loop 0 ty vafree PageCount PageAlignment LastSegment FirstOffset s Segment Offset
     FirstIteration = Inl OutOfFuel"
| "find_loop (Suc fuel) ty vafree PageCount PageAlignment LastSegment FirstOffset s Segment Offset
     FirstIteration =
     (if length (Segments s) \<le> Segment then Inl AccessViolation
      else
        let g = Segments s ! Segment; SegmentPageCount = segment_page_count g in
        if Offset \<ge> SegmentPageCount \<or>
           (ty \<noteq> PhysicalMemoryFindPagable \<and> Offset + PageCount > SegmentPageCount) \<or>
           (ty = PhysicalMemoryFindFree \<and> FreePages g < PageCount)
        then
          if Segment = LastSegment \<and> \<not> FirstIteration then Inr (None, s)
          else
            let Segment' = (if Suc Segment = length (Segments s) then 0 else Suc Segment);
                g' = Segments s ! Segment'
            in if push_bit PAGE_SHIFT (start_page g') \<noteq> StartAddress g' then Inl AssertionFailed
               else
                 let Offset' = ALIGN_RANGE_UP (start_page g') PageAlignment - start_page g' in
                 if Segment' \<noteq> LastSegment \<or> Offset' \<noteq> FirstOffset
                 then find_loop fuel ty vafree PageCount PageAlignment LastSegment FirstOffset s
                        Segment' Offset' False
                 else Inr (None, s)
        else if ty \<noteq> PhysicalMemoryFindPagable \<and> \<not> PageCount \<le> SegmentPageCount - Offset
        then Inl AssertionFailed
        else
          let SpanPageCount =
                (if ty = PhysicalMemoryFindPagable \<and> \<not> PageCount < SegmentPageCount - Offset
                 then SegmentPageCount - Offset else PageCount)
          in case find_span ty vafree g Offset (unat SpanPageCount) 0 (PagingEntries s) of
               Inl e \<Rightarrow> Inl e
             | Inr (SpanCount, h) \<Rightarrow>
                 let s1 = s\<lparr>PagingEntries := h\<rparr> in
                 if SpanCount = PageCount \<or> (SpanCount \<noteq> 0 \<and> ty = PhysicalMemoryFindPagable)
                 then
                   Inr (Some (Segment, Offset, SpanCount),
                        if ty = PhysicalMemoryFindPagable
                        then s1\<lparr>MmLastPagedSegment := Segment,
                                MmLastPagedSegmentOffset := Offset + SpanCount\<rparr>
                        else s1\<lparr>MmLastAllocatedSegment := Segment,
                                MmLastAllocatedSegmentOffset := ucast (Offset + SpanCount)\<rparr>)
                 else
                   let Offset' = (if ty = PhysicalMemoryFindPagable then Offset + 1
                                  else Offset + PageAlignment)
                   in if Segment \<noteq> LastSegment \<or> Offset' \<noteq> FirstOffset
                      then find_loop fuel ty vafree PageCount PageAlignment LastSegment FirstOffset
                             s1 Segment Offset' FirstIteration
                      else Inr (None, s1))"

definition MmpFindPhysicalPages ::
  "nat \<Rightarrow> mm_state \<Rightarrow> ulonglong \<Rightarrow> ulonglong \<Rightarrow> physical_memory_search_type \<Rightarrow> (uintn \<Rightarrow> bool) \<Rightarrow>
   mm_error + ((nat \<times> ulonglong \<times> ulonglong) option \<times> mm_state)" where
  "MmpFindPhysicalPages fuel s PageCount PageAlignment SearchType vafree =
     (if PageAlignment = 0 then Inl AssertionFailed
      else
        let LastSegment = (if SearchType = PhysicalMemoryFindPagable then MmLastPagedSegment s
                           else MmLastAllocatedSegment s);
            LastSegmentOffset = (if SearchType = PhysicalMemoryFindPagable
                                 then MmLastPagedSegmentOffset s
                                 else ucast (MmLastAllocatedSegmentOffset s))
        in if length (Segments s) \<le> LastSegment then Inl AccessViolation
           else
             let g = Segments s ! LastSegment in
             if push_bit PAGE_SHIFT (start_page g) \<noteq> StartAddress g then Inl AssertionFailed
             else
               let Offset = ALIGN_RANGE_UP (start_page g + LastSegmentOffset) PageAlignment
                            - start_page g
               in find_loop fuel SearchType vafree PageCount PageAlignment LastSegment Offset s
                    LastSegment Offset True)"

subsection \<open>Allocating pages\<close>

text \<open>
  The loop that takes the pages found: each must be free, and each moves the three counters
  and becomes a bare non-paged page. \<open>MmpAllocateIdentityMappablePhysicalPages\<close> asserts
  \<open>MmTotalAllocatedPhysicalPages <= MmTotalPhysicalPages\<close> inside the loop
  (\<open>each\<close>), \<open>MmpAllocatePhysicalPages\<close> after it.
\<close>

fun allocate_mark_pages :: "bool \<Rightarrow> nat \<Rightarrow> nat \<Rightarrow> nat \<Rightarrow> mm_state \<Rightarrow> mm_error + mm_state" where
  "allocate_mark_pages each k i 0 s = Inr s"
| "allocate_mark_pages each k i (Suc n) s =
     (let g = Segments s ! k in
      if length (Pages g) \<le> i then Inl AccessViolation
      else if Pages g ! i \<noteq> PHYSICAL_PAGE_FREE then Inl AssertionFailed
      else
        let s1 = s\<lparr>Segments := (Segments s)[k := g\<lparr>FreePages := FreePages g - 1,
                        Pages := (Pages g)[i := PHYSICAL_PAGE_FLAG_NON_PAGED]\<rparr>],
                    MmTotalAllocatedPhysicalPages := MmTotalAllocatedPhysicalPages s + 1,
                    MmNonPagedPhysicalPages := MmNonPagedPhysicalPages s + 1\<rparr>
        in if each \<and> \<not> MmTotalAllocatedPhysicalPages s1 \<le> MmTotalPhysicalPages s1
           then Inl AssertionFailed
           else allocate_mark_pages each k (Suc i) n s1)"

text \<open>
  The block "Periodically check to see if memory warnings should be signaled" of
  \<open>MmpAllocatePhysicalPages\<close>; the boolean is \<open>SignalEvent\<close>.
\<close>

definition allocate_check_warning :: "ulong \<Rightarrow> mm_state \<Rightarrow> mm_state \<times> bool" where
  "allocate_check_warning PageCount s =
     (let s1 = s\<lparr>MmPhysicalMemoryAllocationCount := MmPhysicalMemoryAllocationCount s + 1\<rparr> in
      if MmPhysicalMemoryAllocationCount s1 AND MmPhysicalMemoryWarningCountMask s1 = 0 \<or>
         PageCount \<ge> MmPhysicalMemoryWarningCountMask s1
      then
        if MmPhysicalMemoryWarningLevel s1 \<noteq> MemoryWarningLevel1 \<and>
           ucast (MmTotalAllocatedPhysicalPages s1) \<ge> MmPhysicalMemoryWarningLevel1HighPages s1
        then (s1\<lparr>MmPhysicalMemoryWarningLevel := MemoryWarningLevel1\<rparr>, True)
        else if MmPhysicalMemoryWarningLevel s1 \<noteq> MemoryWarningLevel2 \<and>
           ucast (MmTotalAllocatedPhysicalPages s1) \<ge> MmPhysicalMemoryWarningLevel2HighPages s1
        then (s1\<lparr>MmPhysicalMemoryWarningLevel := MemoryWarningLevel2\<rparr>, True)
        else (s1, False)
      else (s1, False))"

text \<open>
  One pass through the \<open>while (TRUE)\<close> loop of \<open>MmpAllocatePhysicalPages\<close>, with
  \<open>Alignment\<close> already shifted to pages as the routine does on entry. Either the pages
  are taken (address, database, \<open>SignalEvent\<close>), or the pass ends in
  \<open>MmRequestPagingOut(FreePageTarget)\<close> and the wait for the paging event.
\<close>

datatype allocate_pass = PagesAllocated physical_address mm_state bool
  | PagingOutRequested ulonglong mm_state

definition allocate_pass ::
  "nat \<Rightarrow> mm_state \<Rightarrow> ulong \<Rightarrow> ulonglong \<Rightarrow> mm_error + allocate_pass" where
  "allocate_pass fuel s PageCount Alignment =
     (case MmpFindPhysicalPages fuel s (ucast PageCount) Alignment PhysicalMemoryFindFree
             (\<lambda>va. True) of
        Inl e \<Rightarrow> Inl e
      | Inr (Some (k, SegmentOffset, PagesFound), s1) \<Rightarrow>
          (let WorkingAllocation = StartAddress (Segments s1 ! k) + push_bit PAGE_SHIFT SegmentOffset in
           case allocate_mark_pages False k (unat SegmentOffset) (unat PageCount) s1 of
             Inl e \<Rightarrow> Inl e
           | Inr s2 \<Rightarrow>
               if \<not> MmTotalAllocatedPhysicalPages s2 \<le> MmTotalPhysicalPages s2
               then Inl AssertionFailed
               else
                 let (s3, SignalEvent) = allocate_check_warning PageCount s2 in
                 Inr (PagesAllocated WorkingAllocation s3 SignalEvent))
      | Inr (None, s1) \<Rightarrow>
          (let FreePageTarget = ucast (MmMinimumFreePhysicalPages s1);
               FreePageTarget =
                 (if FreePageTarget < ucast PageCount + drop_bit PAGE_SHIFT Alignment
                  then ucast PageCount + drop_bit PAGE_SHIFT Alignment
                  else FreePageTarget)
           in Inr (PagingOutRequested FreePageTarget s1)))"

text \<open>
  The whole routine. After each request the caller sleeps on the paging event; what it
  finds on waking, the database as others have left it and the time counter, comes from
  the environment as a list. The result carries the targets passed to
  \<open>MmRequestPagingOut\<close> so far. With no environment left the caller is still asleep
  (\<open>None\<close>). \<open>freq\<close> is \<open>HlQueryTimeCounterFrequency()\<close>.
\<close>

fun allocate_retry ::
  "nat \<Rightarrow> ulonglong \<Rightarrow> ulong \<Rightarrow> ulonglong \<Rightarrow> ulonglong \<Rightarrow> ulonglong list \<Rightarrow> mm_state \<Rightarrow>
   (mm_state \<times> ulonglong) list \<Rightarrow>
   mm_error + ((physical_address \<times> mm_state \<times> bool) option \<times> ulonglong list)" where
  "allocate_retry fuel freq PageCount Alignment Timeout requests s env =
     (case allocate_pass fuel s PageCount Alignment of
        Inl e \<Rightarrow> Inl e
      | Inr (PagesAllocated a s' signal) \<Rightarrow> Inr (Some (a, s', signal), requests)
      | Inr (PagingOutRequested target s') \<Rightarrow>
          (case env of
             [] \<Rightarrow> Inr (None, requests @ [target])
           | (s'', now) # env' \<Rightarrow>
               if Timeout = 0
               then allocate_retry fuel freq PageCount Alignment
                      (now + freq * PHYSICAL_MEMORY_ALLOCATION_TIMEOUT)
                      (requests @ [target]) s'' env'
               else if now \<ge> Timeout then Inl CrashOutOfMemory
               else allocate_retry fuel freq PageCount Alignment Timeout
                      (requests @ [target]) s'' env'))"

definition MmpAllocatePhysicalPages ::
  "nat \<Rightarrow> ulonglong \<Rightarrow> (mm_state \<times> ulonglong) list \<Rightarrow> mm_state \<Rightarrow> ulong \<Rightarrow> ulonglong \<Rightarrow>
   mm_error + ((physical_address \<times> mm_state \<times> bool) option \<times> ulonglong list)" where
  "MmpAllocatePhysicalPages fuel freq env s PageCount Alignment =
     (let Alignment = drop_bit PAGE_SHIFT Alignment;
          Alignment = (if Alignment = 0 then 1 else Alignment)
      in allocate_retry fuel freq PageCount Alignment 0 [] s env)"

definition MmpAllocateIdentityMappablePhysicalPages ::
  "nat \<Rightarrow> (uintn \<Rightarrow> bool) \<Rightarrow> mm_state \<Rightarrow> ulong \<Rightarrow> ulonglong \<Rightarrow>
   mm_error + (physical_address option \<times> mm_state)" where
  "MmpAllocateIdentityMappablePhysicalPages fuel vafree s PageCount Alignment =
     (let Alignment = drop_bit PAGE_SHIFT Alignment;
          Alignment = (if Alignment = 0 then 1 else Alignment)
      in case MmpFindPhysicalPages fuel s (ucast PageCount) Alignment
                PhysicalMemoryFindIdentityMappable vafree of
           Inl e \<Rightarrow> Inl e
         | Inr (None, s1) \<Rightarrow> Inr (None, s1)
         | Inr (Some (k, SegmentOffset, PagesFound), s1) \<Rightarrow>
             (case allocate_mark_pages True k (unat SegmentOffset) (unat PageCount) s1 of
                Inl e \<Rightarrow> Inl e
              | Inr s2 \<Rightarrow>
                  Inr (Some (StartAddress (Segments s1 ! k) + push_bit PAGE_SHIFT SegmentOffset),
                       s2)))"

subsection \<open>Making pages pagable, locking and unlocking\<close>

text \<open>
  \<open>MmpEnablePagingOnPhysicalAddress\<close> picks the first segment that its \<open>InRange\<close>
  test does not rule out, and does nothing when there is none. \<open>PageCount\<close> is a
  \<open>ULONG\<close>, so \<open>PageCount << PageShift\<close> is computed in 32 bits before it is added
  to the 64-bit address.
\<close>

fun find_segment_in_range ::
  "physical_memory_segment list \<Rightarrow> physical_address \<Rightarrow> physical_address \<Rightarrow> nat \<Rightarrow> nat option" where
  "find_segment_in_range [] pa ea k = None"
| "find_segment_in_range (g # gs) pa ea k =
     (if (pa < StartAddress g \<and> ea \<le> StartAddress g) \<or> (pa \<ge> EndAddress g \<and> ea > EndAddress g)
      then find_segment_in_range gs pa ea (Suc k) else Some k)"

fun enable_paging_loop ::
  "bool \<Rightarrow> uintn list \<Rightarrow> nat \<Rightarrow> nat \<Rightarrow> nat \<Rightarrow> nat \<Rightarrow> mm_state \<Rightarrow> mm_error + mm_state" where
  "enable_paging_loop LockPages PagingEntryArray k PageOffset PageIndex 0 s = Inr s"
| "enable_paging_loop LockPages PagingEntryArray k PageOffset PageIndex (Suc n) s =
     (let g = Segments s ! k; i = PageOffset + PageIndex in
      if length (Pages g) \<le> i then Inl AccessViolation
      else if Pages g ! i AND PHYSICAL_PAGE_FLAG_NON_PAGED = 0 then Inl AssertionFailed
      else if length PagingEntryArray \<le> PageIndex then Inl AccessViolation
      else
        let p = PagingEntryArray ! PageIndex in
        if p AND PHYSICAL_PAGE_FLAG_NON_PAGED \<noteq> 0 then Inl AssertionFailed
        else
          (case PagingEntries s p of
             None \<Rightarrow> Inl AccessViolation
           | Some pe \<Rightarrow>
               if Section pe = 0 then Inl AssertionFailed
               else
                 let s1 = set_page s k i p in
                 if LockPages then
                   if LockCount pe \<noteq> 0 then Inl AssertionFailed
                   else enable_paging_loop LockPages PagingEntryArray k PageOffset (Suc PageIndex) n
                          (s1\<lparr>PagingEntries := (PagingEntries s1)(p \<mapsto> pe\<lparr>LockCount := 1\<rparr>)\<rparr>)
                 else enable_paging_loop LockPages PagingEntryArray k PageOffset (Suc PageIndex) n
                        (s1\<lparr>MmNonPagedPhysicalPages := MmNonPagedPhysicalPages s1 - 1\<rparr>)))"

definition MmpEnablePagingOnPhysicalAddress ::
  "mm_state \<Rightarrow> physical_address \<Rightarrow> ulong \<Rightarrow> uintn list \<Rightarrow> bool \<Rightarrow> mm_error + mm_state" where
  "MmpEnablePagingOnPhysicalAddress s pa PageCount PagingEntryArray LockPages =
     (if pa AND (PAGE_SIZE - 1) \<noteq> 0 then Inl AssertionFailed
      else
        let ea = pa + ucast (push_bit PAGE_SHIFT PageCount) in
        case find_segment_in_range (Segments s) pa ea 0 of
          None \<Rightarrow> Inr s
        | Some k \<Rightarrow>
            (let g = Segments s ! k in
             if \<not> (StartAddress g \<le> pa \<and> ea \<le> EndAddress g) then Inl AssertionFailed
             else enable_paging_loop LockPages PagingEntryArray k (page_offset g pa) 0
                    (unat PageCount) s))"

text \<open>
  The loop of \<open>MmpLockPhysicalPages\<close>, at \<open>PageIndex\<close> with \<open>n\<close> pages to go. It
  returns the status together with the value \<open>PageIndex\<close> has when the loop is left.
\<close>

fun lock_loop ::
  "nat \<Rightarrow> nat \<Rightarrow> nat \<Rightarrow> nat \<Rightarrow> nat \<Rightarrow> mm_state \<Rightarrow> mm_error + (kstatus \<times> nat \<times> mm_state)" where
  "lock_loop k Offset MaxOffset PageIndex 0 s = Inr (STATUS_SUCCESS, PageIndex, s)"
| "lock_loop k Offset MaxOffset PageIndex (Suc n) s =
     (let g = Segments s ! k; i = Offset + PageIndex in
      if \<not> i < MaxOffset then Inl AssertionFailed
      else if length (Pages g) \<le> i then Inl AccessViolation
      else
        let page = Pages g ! i in
        if page = PHYSICAL_PAGE_FREE then Inl AssertionFailed
        else if page AND PHYSICAL_PAGE_FLAG_NON_PAGED \<noteq> 0
        then lock_loop k Offset MaxOffset (Suc PageIndex) n s
        else
          (case PagingEntries s page of
             None \<Rightarrow> Inl AccessViolation
           | Some pe \<Rightarrow>
               if LockCount pe = MAX_PHYSICAL_PAGE_LOCK_COUNT
               then Inr (STATUS_RESOURCE_IN_USE, PageIndex, s)
               else
                 let s1 = (if LockCount pe = 0
                           then s\<lparr>MmNonPagedPhysicalPages := MmNonPagedPhysicalPages s + 1\<rparr>
                           else s)
                 in lock_loop k Offset MaxOffset (Suc PageIndex) n
                      (s1\<lparr>PagingEntries := (PagingEntries s1)
                              (page \<mapsto> pe\<lparr>LockCount := LockCount pe + 1\<rparr>)\<rparr>)))"

fun unlock_loop :: "nat \<Rightarrow> nat \<Rightarrow> nat \<Rightarrow> nat \<Rightarrow> nat \<Rightarrow> mm_state \<Rightarrow> mm_error + mm_state" where
  "unlock_loop k Offset MaxOffset PageIndex 0 s = Inr s"
| "unlock_loop k Offset MaxOffset PageIndex (Suc n) s =
     (let g = Segments s ! k; i = Offset + PageIndex in
      if \<not> i < MaxOffset then Inl AssertionFailed
      else if length (Pages g) \<le> i then Inl AccessViolation
      else
        let page = Pages g ! i in
        if page = PHYSICAL_PAGE_FREE then Inl AssertionFailed
        else if page AND PHYSICAL_PAGE_FLAG_NON_PAGED \<noteq> 0
        then unlock_loop k Offset MaxOffset (Suc PageIndex) n s
        else
          (case PagingEntries s page of
             None \<Rightarrow> Inl AccessViolation
           | Some pe \<Rightarrow>
               if LockCount pe = 0 then Inl AssertionFailed
               else
                 let c = LockCount pe - 1;
                     s1 = s\<lparr>PagingEntries := (PagingEntries s)(page \<mapsto> pe\<lparr>LockCount := c\<rparr>)\<rparr>
                 in unlock_loop k Offset MaxOffset (Suc PageIndex) n
                      (if c = 0
                       then s1\<lparr>MmNonPagedPhysicalPages := MmNonPagedPhysicalPages s1 - 1\<rparr>
                       else s1)))"

definition MmpUnlockPhysicalPages ::
  "mm_state \<Rightarrow> physical_address \<Rightarrow> ulong \<Rightarrow> mm_error + mm_state" where
  "MmpUnlockPhysicalPages s pa PageCount =
     (case find_segment (Segments s) pa 0 of
        None \<Rightarrow> Inl AssertionFailed
      | Some k \<Rightarrow>
          (let g = Segments s ! k in
           unlock_loop k (page_offset g pa) (unat (segment_page_count g)) 0 (unat PageCount) s))"

text \<open>
  \<open>MmpLockPhysicalPages\<close>: on a failure status with \<open>PageIndex != 0\<close> it calls
  \<open>MmpUnlockPhysicalPages(PhysicalAddress, PageIndex)\<close> before returning the status.
\<close>

definition MmpLockPhysicalPages ::
  "mm_state \<Rightarrow> physical_address \<Rightarrow> ulong \<Rightarrow> mm_error + (kstatus \<times> mm_state)" where
  "MmpLockPhysicalPages s pa PageCount =
     (case find_segment (Segments s) pa 0 of
        None \<Rightarrow> Inl AssertionFailed
      | Some k \<Rightarrow>
          (let g = Segments s ! k in
           case lock_loop k (page_offset g pa) (unat (segment_page_count g)) 0 (unat PageCount) s of
             Inl e \<Rightarrow> Inl e
           | Inr (Status, PageIndex, s1) \<Rightarrow>
               if Status \<noteq> STATUS_SUCCESS \<and> PageIndex \<noteq> 0
               then (case MmpUnlockPhysicalPages s1 pa (of_nat PageIndex) of
                       Inl e \<Rightarrow> Inl e
                     | Inr s2 \<Rightarrow> Inr (Status, s2))
               else Inr (Status, s1)))"

subsection \<open>Runs of pages and their paging entries\<close>

text \<open>
  The records of the \<open>n\<close> frames starting at a physical address, when the run lies
  inside the segment that holds the address.
\<close>

definition run_pages :: "mm_state \<Rightarrow> physical_address \<Rightarrow> nat \<Rightarrow> uintn list option" where
  "run_pages s pa n =
     (case find_segment (Segments s) pa 0 of
        None \<Rightarrow> None
      | Some k \<Rightarrow>
          (let g = Segments s ! k; off = page_offset g pa in
           if off + n \<le> length (Pages g) \<and> off + n \<le> unat (segment_page_count g)
           then Some (take n (drop off (Pages g))) else None))"

text \<open>
  A run is well formed when every frame in it is allocated, every pagable frame points at
  a paging entry in the store, and no two pagable frames share one (a paging entry
  describes one page of its section).
\<close>

definition run_wf :: "(uintn \<rightharpoonup> paging_entry) \<Rightarrow> uintn list \<Rightarrow> bool" where
  "run_wf h ws \<longleftrightarrow>
     (\<forall>w\<in>set ws. w \<noteq> PHYSICAL_PAGE_FREE \<and> (w AND PHYSICAL_PAGE_FLAG_NON_PAGED = 0 \<longrightarrow> h w \<noteq> None)) \<and>
     distinct (filter (\<lambda>w. w AND PHYSICAL_PAGE_FLAG_NON_PAGED = 0) ws)"

definition at_cap :: "(uintn \<rightharpoonup> paging_entry) \<Rightarrow> uintn \<Rightarrow> bool" where
  "at_cap h w \<longleftrightarrow> w AND PHYSICAL_PAGE_FLAG_NON_PAGED = 0 \<and>
     (case h w of None \<Rightarrow> False | Some pe \<Rightarrow> LockCount pe = MAX_PHYSICAL_PAGE_LOCK_COUNT)"

text \<open>
  The two loops read off the list of page records, on the two things they change: the
  paging entry store and \<open>MmNonPagedPhysicalPages\<close>. The lemmas \<open>lock_loop_run\<close>
  and \<open>unlock_loop_run\<close> below show that the loops of the source compute exactly this.
\<close>

fun lock_run ::
  "uintn list \<Rightarrow> nat \<Rightarrow> (uintn \<rightharpoonup> paging_entry) \<Rightarrow> uintn \<Rightarrow>
   mm_error + (kstatus \<times> nat \<times> (uintn \<rightharpoonup> paging_entry) \<times> uintn)" where
  "lock_run [] j h np = Inr (STATUS_SUCCESS, j, h, np)"
| "lock_run (w # ws) j h np =
     (if w = PHYSICAL_PAGE_FREE then Inl AssertionFailed
      else if w AND PHYSICAL_PAGE_FLAG_NON_PAGED \<noteq> 0 then lock_run ws (Suc j) h np
      else
        (case h w of
           None \<Rightarrow> Inl AccessViolation
         | Some pe \<Rightarrow>
             if LockCount pe = MAX_PHYSICAL_PAGE_LOCK_COUNT then Inr (STATUS_RESOURCE_IN_USE, j, h, np)
             else lock_run ws (Suc j) (h(w \<mapsto> pe\<lparr>LockCount := LockCount pe + 1\<rparr>))
                    (if LockCount pe = 0 then np + 1 else np)))"

fun unlock_run ::
  "uintn list \<Rightarrow> (uintn \<rightharpoonup> paging_entry) \<Rightarrow> uintn \<Rightarrow> mm_error + ((uintn \<rightharpoonup> paging_entry) \<times> uintn)" where
  "unlock_run [] h np = Inr (h, np)"
| "unlock_run (w # ws) h np =
     (if w = PHYSICAL_PAGE_FREE then Inl AssertionFailed
      else if w AND PHYSICAL_PAGE_FLAG_NON_PAGED \<noteq> 0 then unlock_run ws h np
      else
        (case h w of
           None \<Rightarrow> Inl AccessViolation
         | Some pe \<Rightarrow>
             if LockCount pe = 0 then Inl AssertionFailed
             else unlock_run ws (h(w \<mapsto> pe\<lparr>LockCount := LockCount pe - 1\<rparr>))
                    (if LockCount pe - 1 = 0 then np - 1 else np)))"

definition with_locks :: "mm_state \<Rightarrow> (uintn \<rightharpoonup> paging_entry) \<Rightarrow> uintn \<Rightarrow> mm_state" where
  "with_locks s h np = s\<lparr>PagingEntries := h, MmNonPagedPhysicalPages := np\<rparr>"
definition lift_lock ::
  "mm_state \<Rightarrow> mm_error + (kstatus \<times> nat \<times> (uintn \<rightharpoonup> paging_entry) \<times> uintn) \<Rightarrow>
   mm_error + (kstatus \<times> nat \<times> mm_state)" where
  "lift_lock s r = (case r of Inl e \<Rightarrow> Inl e | Inr (st, j, h, np) \<Rightarrow> Inr (st, j, with_locks s h np))"

definition lift_unlock ::
  "mm_state \<Rightarrow> mm_error + ((uintn \<rightharpoonup> paging_entry) \<times> uintn) \<Rightarrow> mm_error + mm_state" where
  "lift_unlock s r = (case r of Inl e \<Rightarrow> Inl e | Inr (h, np) \<Rightarrow> Inr (with_locks s h np))"

text \<open>A small database used to run the routines on concrete input.\<close>

definition example_entries :: "uintn \<rightharpoonup> paging_entry" where
  "example_entries =
     [0x2000 \<mapsto> \<lparr>Section = 0x10, SectionOffset = 0, LockCount = 3, PagingOut = False\<rparr>,
      0x3000 \<mapsto> \<lparr>Section = 0x10, SectionOffset = 1, LockCount = 15, PagingOut = False\<rparr>]"

definition example_mm :: mm_state where
  "example_mm =
     \<lparr>Segments = [\<lparr>StartAddress = 0x1000, EndAddress = 0x5000, FreePages = 1,
                   Pages = [1, 0x2000, 0x3000, 0]\<rparr>],
      PagingEntries = example_entries,
      MmTotalPhysicalPages = 4,
      MmTotalAllocatedPhysicalPages = 3,
      MmMinimumFreePhysicalPages = 0,
      MmNonPagedPhysicalPages = 3,
      MmLastAllocatedSegment = 0,
      MmLastAllocatedSegmentOffset = 0,
      MmLastPagedSegment = 0,
      MmLastPagedSegmentOffset = 0,
      MmPhysicalMemoryWarningLevel = MemoryWarningLevelNone,
      MmPhysicalMemoryWarningLevel1HighPages = 3,
      MmPhysicalMemoryWarningLevel1LowPages = 3,
      MmPhysicalMemoryWarningLevel2HighPages = 3,
      MmPhysicalMemoryWarningLevel2LowPages = 3,
      MmPhysicalMemoryWarningCountMask = 0,
      MmPhysicalMemoryAllocationCount = 0,
      MmPhysicalMemoryFreeCount = 0\<rparr>"

subsection \<open>The counter invariant and a database with mixed frames\<close>

text \<open>
  The counter invariant of the database: the segments' free counts add up to
  \<open>total - allocated\<close>, and \<open>non_paged \<le> allocated \<le> total\<close>.
\<close>

definition counters_ok :: "mm_state \<Rightarrow> bool" where
  "counters_ok s \<longleftrightarrow>
     sum_list (map (\<lambda>g. unat (FreePages g)) (Segments s)) + unat (MmTotalAllocatedPhysicalPages s)
       = unat (MmTotalPhysicalPages s) \<and>
     unat (MmNonPagedPhysicalPages s) \<le> unat (MmTotalAllocatedPhysicalPages s) \<and>
     unat (MmTotalAllocatedPhysicalPages s) \<le> unat (MmTotalPhysicalPages s)"

text \<open>
  A database of one segment of three frames at \<open>0x1000\<close>, \<open>0x2000\<close> and
  \<open>0x3000\<close>, with one paging entry at address \<open>0x2000\<close>; the arguments are the
  three page records, the entry's "paging out" flag and the three counters.
\<close>

definition mixed_entry :: "bool \<Rightarrow> paging_entry" where
  "mixed_entry out = \<lparr>Section = 0x10, SectionOffset = 0, LockCount = 0, PagingOut = out\<rparr>"

definition mixed_mm :: "uintn list \<Rightarrow> bool \<Rightarrow> nat \<Rightarrow> nat \<Rightarrow> nat \<Rightarrow> mm_state" where
  "mixed_mm pages out free allocated nonpaged =
     \<lparr>Segments = [\<lparr>StartAddress = 0x1000, EndAddress = 0x4000, FreePages = of_nat free,
                   Pages = pages\<rparr>],
      PagingEntries = [0x2000 \<mapsto> mixed_entry out],
      MmTotalPhysicalPages = 3,
      MmTotalAllocatedPhysicalPages = of_nat allocated,
      MmMinimumFreePhysicalPages = 0,
      MmNonPagedPhysicalPages = of_nat nonpaged,
      MmLastAllocatedSegment = 0,
      MmLastAllocatedSegmentOffset = 0,
      MmLastPagedSegment = 0,
      MmLastPagedSegmentOffset = 0,
      MmPhysicalMemoryWarningLevel = MemoryWarningLevelNone,
      MmPhysicalMemoryWarningLevel1HighPages = 100,
      MmPhysicalMemoryWarningLevel1LowPages = 100,
      MmPhysicalMemoryWarningLevel2HighPages = 100,
      MmPhysicalMemoryWarningLevel2LowPages = 100,
      MmPhysicalMemoryWarningCountMask = 0,
      MmPhysicalMemoryAllocationCount = 0,
      MmPhysicalMemoryFreeCount = 0\<rparr>"

subsection \<open>Views of the warning state\<close>

text \<open>
  The thresholds and the mask, which no routine but the initialization writes, and with
  them the level and the two sampling counters.
\<close>

definition warning_settings ::
  "mm_state \<Rightarrow> ulonglong \<times> ulonglong \<times> ulonglong \<times> ulonglong \<times> uintn" where
  "warning_settings s =
     (MmPhysicalMemoryWarningLevel1HighPages s, MmPhysicalMemoryWarningLevel1LowPages s,
      MmPhysicalMemoryWarningLevel2HighPages s, MmPhysicalMemoryWarningLevel2LowPages s,
      MmPhysicalMemoryWarningCountMask s)"

definition warning_view :: "mm_state \<Rightarrow> _" where
  "warning_view s =
     (warning_settings s, MmPhysicalMemoryWarningLevel s, MmPhysicalMemoryAllocationCount s,
      MmPhysicalMemoryFreeCount s)"

text \<open>
  The condition under which \<open>MmpAllocatePhysicalPages\<close> looks at the thresholds: the
  allocation counter, once incremented, has no bit of the mask set, or the page count is
  at least the mask.
\<close>

definition allocate_sampled :: "ulong \<Rightarrow> mm_state \<Rightarrow> bool" where
  "allocate_sampled PageCount s \<longleftrightarrow>
     (MmPhysicalMemoryAllocationCount s + 1) AND MmPhysicalMemoryWarningCountMask s = 0 \<or>
     PageCount \<ge> MmPhysicalMemoryWarningCountMask s"

text \<open>
  A database of one segment of 200 frames at 1 MiB, the first \<open>a\<close> of them allocated
  non-paged and the allocation cursor behind them, with the thresholds, the minimum free
  count and the mask that the initialization derives for 200 pages (194, 190, 180, 174;
  10; 1). The other arguments are the warning level and the two sampling counters.
\<close>

definition warn_mm :: "nat \<Rightarrow> memory_warning_level \<Rightarrow> nat \<Rightarrow> nat \<Rightarrow> mm_state" where
  "warn_mm a level allocations frees =
     \<lparr>Segments = [\<lparr>StartAddress = 0x100000, EndAddress = 0x1C8000, FreePages = of_nat (200 - a),
                   Pages = replicate a 1 @ replicate (200 - a) 0\<rparr>],
      PagingEntries = Map.empty,
      MmTotalPhysicalPages = 200,
      MmTotalAllocatedPhysicalPages = of_nat a,
      MmMinimumFreePhysicalPages = 10,
      MmNonPagedPhysicalPages = of_nat a,
      MmLastAllocatedSegment = 0,
      MmLastAllocatedSegmentOffset = of_nat a,
      MmLastPagedSegment = 0,
      MmLastPagedSegmentOffset = 0,
      MmPhysicalMemoryWarningLevel = level,
      MmPhysicalMemoryWarningLevel1HighPages = 194,
      MmPhysicalMemoryWarningLevel1LowPages = 190,
      MmPhysicalMemoryWarningLevel2HighPages = 180,
      MmPhysicalMemoryWarningLevel2LowPages = 174,
      MmPhysicalMemoryWarningCountMask = 1,
      MmPhysicalMemoryAllocationCount = of_nat allocations,
      MmPhysicalMemoryFreeCount = of_nat frees\<rparr>"

subsection \<open>Paging out\<close>

text \<open>
  The locals of \<open>MmpPageOutPhysicalPages\<close> that live across iterations, and a count of
  the \<open>KeSignalEvent(MmPagingFreePagesEvent, SignalOptionSignalAll)\<close> calls made.
\<close>

record page_out_locals =
  po_FreePagesTarget :: ulonglong
  po_FailureCount :: ulong
  po_PageCountSinceEvent :: ulonglong
  po_TotalPagesPaged :: ulonglong
  po_Signals :: nat

text \<open>How a pass through the \<open>while (TRUE)\<close> loop left it, one constructor per \<open>break\<close>.\<close>

datatype page_out_end = GoalReached | NothingPagable | TooManyFailures

text \<open>
  The first half of an iteration, under the database lock: the target is capped, the goal
  is tested, and one pagable page is searched for. It ends the pass or yields the
  arguments for \<open>MmpPageOut\<close>: paging entry, section, section offset and physical address.
\<close>

definition page_out_select ::
  "nat \<Rightarrow> mm_state \<Rightarrow> page_out_locals \<Rightarrow>
   mm_error + ((page_out_end + (uintn \<times> uintn \<times> uintn \<times> physical_address)) \<times> mm_state \<times>
               page_out_locals)" where
  "page_out_select fuel s l =
     (let l1 = (if po_FreePagesTarget l > ucast (MmTotalPhysicalPages s - MmNonPagedPhysicalPages s)
                then l\<lparr>po_FreePagesTarget := ucast (MmTotalPhysicalPages s - MmNonPagedPhysicalPages s)\<rparr>
                else l);
          FreePagesCount = (ucast (MmTotalPhysicalPages s - MmTotalAllocatedPhysicalPages s) :: ulonglong)
      in if FreePagesCount \<ge> po_FreePagesTarget l1 \<or> po_TotalPagesPaged l1 \<ge> po_FreePagesTarget l1
         then Inr (Inl GoalReached, s, l1)
         else
           case MmpFindPhysicalPages fuel s 1 1 PhysicalMemoryFindPagable (\<lambda>va. True) of
             Inl e \<Rightarrow> Inl e
           | Inr (None, s1) \<Rightarrow> Inr (Inl NothingPagable, s1, l1)
           | Inr (Some (k, SegmentOffset, PagesFound), s1) \<Rightarrow>
               if PagesFound \<noteq> 1 then Inl AssertionFailed
               else
                 let g = Segments s1 ! k;
                     PhysicalAddress = StartAddress g + push_bit PAGE_SHIFT SegmentOffset
                 in if length (Pages g) \<le> unat SegmentOffset then Inl AccessViolation
                    else
                      let PagingEntry = Pages g ! unat SegmentOffset in
                      if PagingEntry = 0 \<or> PagingEntry AND PHYSICAL_PAGE_FLAG_NON_PAGED \<noteq> 0
                      then Inl AssertionFailed
                      else
                        (case PagingEntries s1 PagingEntry of
                           None \<Rightarrow> Inl AccessViolation
                         | Some pe \<Rightarrow>
                             Inr (Inr (PagingEntry, Section pe, SectionOffset pe, PhysicalAddress),
                                  s1, l1)))"

text \<open>
  The second half, after \<open>MmpPageOut\<close> has returned \<open>Status\<close> and \<open>PagesPaged\<close>. The
  boolean tells whether the failure count ends the pass.
\<close>

definition page_out_account :: "kstatus \<Rightarrow> ulonglong \<Rightarrow> page_out_locals \<Rightarrow> bool \<times> page_out_locals" where
  "page_out_account Status PagesPaged l =
     (let l1 =
            (if Status = STATUS_SUCCESS then
               let c = po_PageCountSinceEvent l + PagesPaged in
               if c \<ge> PAGING_EVENT_SIGNAL_PAGE_COUNT
               then l\<lparr>po_PageCountSinceEvent := 0, po_Signals := po_Signals l + 1\<rparr>
               else l\<lparr>po_PageCountSinceEvent := c\<rparr>
             else l);
          Failure = (Status \<noteq> STATUS_SUCCESS \<and> Status \<noteq> STATUS_RESOURCE_IN_USE);
          l2 = l1\<lparr>po_TotalPagesPaged := po_TotalPagesPaged l1 + PagesPaged\<rparr>
      in if Failure then
           let l3 = l2\<lparr>po_FailureCount := po_FailureCount l2 + 1\<rparr> in
           (po_FailureCount l3 \<ge> PHYSICAL_MEMORY_MAX_PAGE_OUT_FAILURE_COUNT, l3)
         else (False, l2))"

text \<open>
  The loop. \<open>MmpPageOut\<close> belongs to the image section code and runs without the database
  lock, so each of its returns comes from the environment: status, pages paged, and the
  database as it is when the lock is taken again. The result is how the pass ended
  (\<open>None\<close> while it is still inside \<open>MmpPageOut\<close> with no return left), the database,
  the locals, and the returns not consumed.
\<close>

fun page_out_loop ::
  "nat \<Rightarrow> (kstatus \<times> ulonglong \<times> mm_state) list \<Rightarrow> mm_state \<Rightarrow> page_out_locals \<Rightarrow>
   mm_error + (page_out_end option \<times> mm_state \<times> page_out_locals \<times>
               (kstatus \<times> ulonglong \<times> mm_state) list)" where
  "page_out_loop fuel [] s l =
     (case page_out_select fuel s l of
        Inl e \<Rightarrow> Inl e
      | Inr (Inl ended, s1, l1) \<Rightarrow> Inr (Some ended, s1, l1, [])
      | Inr (Inr args, s1, l1) \<Rightarrow> Inr (None, s1, l1, []))"
| "page_out_loop fuel ((Status, PagesPaged, s2) # env) s l =
     (case page_out_select fuel s l of
        Inl e \<Rightarrow> Inl e
      | Inr (Inl ended, s1, l1) \<Rightarrow> Inr (Some ended, s1, l1, (Status, PagesPaged, s2) # env)
      | Inr (Inr args, s1, l1) \<Rightarrow>
          (case page_out_account Status PagesPaged l1 of
             (True, l2) \<Rightarrow> Inr (Some TooManyFailures, s2, l2, env)
           | (False, l2) \<Rightarrow> page_out_loop fuel env s2 l2))"

text \<open>
  \<open>MmpPageOutPhysicalPages\<close>: the loop from fresh locals, then the final signal "if there
  are any remainders that were paged out" or nothing was paged at all.
\<close>

definition MmpPageOutPhysicalPages ::
  "nat \<Rightarrow> (kstatus \<times> ulonglong \<times> mm_state) list \<Rightarrow> mm_state \<Rightarrow> ulonglong \<Rightarrow>
   mm_error + (page_out_end option \<times> mm_state \<times> page_out_locals \<times>
               (kstatus \<times> ulonglong \<times> mm_state) list)" where
  "MmpPageOutPhysicalPages fuel env s FreePagesTarget =
     (case page_out_loop fuel env s
             \<lparr>po_FreePagesTarget = FreePagesTarget, po_FailureCount = 0,
              po_PageCountSinceEvent = 0, po_TotalPagesPaged = 0, po_Signals = 0\<rparr> of
        Inl e \<Rightarrow> Inl e
      | Inr (None, s1, l, rest) \<Rightarrow> Inr (None, s1, l, rest)
      | Inr (Some ended, s1, l, rest) \<Rightarrow>
          Inr (Some ended, s1,
               if po_PageCountSinceEvent l \<noteq> 0 \<or> po_TotalPagesPaged l = 0
               then l\<lparr>po_Signals := po_Signals l + 1\<rparr> else l,
               rest))"

text \<open>A return of \<open>MmpPageOut\<close> that counts as a failure of the run.\<close>

definition counted_failure :: "kstatus \<times> ulonglong \<times> mm_state \<Rightarrow> bool" where
  "counted_failure r \<longleftrightarrow> fst r \<noteq> STATUS_SUCCESS \<and> fst r \<noteq> STATUS_RESOURCE_IN_USE"

text \<open>
  A database with two pagable frames for the pager to pick from, and the same database
  after the first of them has been paged out and freed.
\<close>

definition pager_mm :: "bool \<Rightarrow> mm_state" where
  "pager_mm paged =
     \<lparr>Segments = [\<lparr>StartAddress = 0x1000, EndAddress = 0x4000,
                   FreePages = (if paged then 1 else 0),
                   Pages = [if paged then 0 else 0x2000, 0x3000, 1]\<rparr>],
      PagingEntries =
        [0x2000 \<mapsto> \<lparr>Section = 0x10, SectionOffset = 0, LockCount = 0, PagingOut = False\<rparr>,
         0x3000 \<mapsto> \<lparr>Section = 0x10, SectionOffset = 1, LockCount = 0, PagingOut = False\<rparr>],
      MmTotalPhysicalPages = 3,
      MmTotalAllocatedPhysicalPages = (if paged then 2 else 3),
      MmMinimumFreePhysicalPages = 0,
      MmNonPagedPhysicalPages = 1,
      MmLastAllocatedSegment = 0,
      MmLastAllocatedSegmentOffset = 0,
      MmLastPagedSegment = 0,
      MmLastPagedSegmentOffset = 0,
      MmPhysicalMemoryWarningLevel = MemoryWarningLevelNone,
      MmPhysicalMemoryWarningLevel1HighPages = 100,
      MmPhysicalMemoryWarningLevel1LowPages = 100,
      MmPhysicalMemoryWarningLevel2HighPages = 100,
      MmPhysicalMemoryWarningLevel2LowPages = 100,
      MmPhysicalMemoryWarningCountMask = 0,
      MmPhysicalMemoryAllocationCount = 0,
      MmPhysicalMemoryFreeCount = 0\<rparr>"

text \<open>
  The returns of \<open>MmpPageOut\<close> that a pass has consumed, and the longest run of
  consecutive counted failures in a list of returns.
\<close>

definition consumed :: "'a list \<Rightarrow> 'a list \<Rightarrow> 'a list" where
  "consumed env rest = take (length env - length rest) env"

fun failure_runs :: "(kstatus \<times> ulonglong \<times> mm_state) list \<Rightarrow> nat \<Rightarrow> nat \<Rightarrow> nat" where
  "failure_runs [] cur best = max cur best"
| "failure_runs (r # rs) cur best =
     (if counted_failure r then failure_runs rs (Suc cur) best
      else failure_runs rs 0 (max cur best))"

definition longest_failure_run :: "(kstatus \<times> ulonglong \<times> mm_state) list \<Rightarrow> nat" where
  "longest_failure_run rs = failure_runs rs 0 0"

text \<open>Nine failures with "no memory", a success that pages one page, and a tenth failure.\<close>

definition pager_returns :: "(kstatus \<times> ulonglong \<times> mm_state) list" where
  "pager_returns =
     [(STATUS_NO_MEMORY, 0, pager_mm False), (STATUS_NO_MEMORY, 0, pager_mm False),
      (STATUS_NO_MEMORY, 0, pager_mm False), (STATUS_NO_MEMORY, 0, pager_mm False),
      (STATUS_NO_MEMORY, 0, pager_mm False), (STATUS_NO_MEMORY, 0, pager_mm False),
      (STATUS_NO_MEMORY, 0, pager_mm False), (STATUS_NO_MEMORY, 0, pager_mm False),
      (STATUS_NO_MEMORY, 0, pager_mm False), (STATUS_SUCCESS, 1, pager_mm True),
      (STATUS_NO_MEMORY, 0, pager_mm True)]"

subsection \<open>Initialization from the memory map\<close>

text \<open>
  The boot memory map is a list of descriptors in the order \<open>MmMdIterate\<close> visits them.
  The memory types are those the sources name, with one constructor for all others.
  \<open>IS_MEMORY_FREE_TYPE\<close> comes from a header that is not among the sources, so the
  routines take it as the predicate \<open>free_type\<close>.
\<close>

datatype memory_type = MemoryTypeFree | MemoryTypeReserved | MemoryTypeAcpiTables
  | MemoryTypeLoaderTemporary | MemoryTypeLoaderPermanent | MemoryTypeFirmwareTemporary
  | MemoryTypePageTables | MemoryTypeMmStructures | MemoryTypeOther

record memory_descriptor =
  BaseAddress :: ulonglong
  Size :: ulonglong
  Type :: memory_type

definition IS_PHYSICAL_MEMORY_TYPE :: "memory_type \<Rightarrow> bool" where
  "IS_PHYSICAL_MEMORY_TYPE t \<longleftrightarrow>
     t = MemoryTypeFree \<or> t = MemoryTypeAcpiTables \<or> t = MemoryTypeLoaderTemporary \<or>
     t = MemoryTypeLoaderPermanent \<or> t = MemoryTypeFirmwareTemporary \<or>
     t = MemoryTypePageTables \<or> t = MemoryTypeMmStructures"

text \<open>
  The globals that tune the initialization, and its state: the fields of
  \<open>INIT_PHYSICAL_MEMORY_ITERATOR\<close> (\<open>CurrentPage\<close> only as null or not, the current
  segment being the last of the list) together with the globals the iteration routine
  writes.
\<close>

record init_settings =
  MmLimitTotalPhysicalPages :: uintn
  MmMaximumPhysicalAddress :: physical_address
  MmLowestPhysicalPage :: physical_address

record init_state =
  TotalMemoryBytes :: ulonglong
  TotalSegments :: uintn
  LastEnd :: physical_address
  CurrentPage :: bool
  PagesInitialized :: ulonglong
  TotalMemoryPages :: ulonglong
  SegmentList :: "physical_memory_segment list"
  AllocatedPages :: uintn
  NonPagedPages :: uintn
  MmPhysicalPageZeroAllocated :: bool

text \<open>
  The loop "Initialize each page in the segment", with \<open>n\<close> the value of
  \<open>PageCount\<close>. The pages go to the segment created last.
\<close>

fun init_pages :: "bool \<Rightarrow> nat \<Rightarrow> init_state \<Rightarrow> mm_error + init_state" where
  "init_pages FreePage 0 st = Inr st"
| "init_pages FreePage (Suc n) st =
     (if \<not> PagesInitialized st < TotalMemoryPages st then Inr st
      else if SegmentList st = [] then Inl AccessViolation
      else
        let g = last (SegmentList st);
            g1 = (if FreePage
                  then g\<lparr>FreePages := FreePages g + 1, Pages := Pages g @ [PHYSICAL_PAGE_FREE]\<rparr>
                  else g\<lparr>Pages := Pages g @ [PHYSICAL_PAGE_FLAG_NON_PAGED]\<rparr>);
            st1 = (if FreePage then st
                   else st\<lparr>AllocatedPages := AllocatedPages st + 1,
                           NonPagedPages := NonPagedPages st + 1\<rparr>)
        in if \<not> FreePage \<and> \<not> ucast (AllocatedPages st1) \<le> TotalMemoryPages st1
           then Inl AssertionFailed
           else init_pages FreePage n
                  (st1\<lparr>SegmentList := butlast (SegmentList st1) @
                                         [g1\<lparr>EndAddress := EndAddress g1 + PAGE_SIZE\<rparr>],
                        PagesInitialized := PagesInitialized st1 + 1\<rparr>))"

text \<open>
  \<open>MmpInitializePhysicalAllocatorIterationRoutine\<close> on one descriptor. It may change the
  descriptor in place, so the descriptor is returned with the state.
\<close>

definition init_iteration ::
  "(memory_type \<Rightarrow> bool) \<Rightarrow> init_settings \<Rightarrow> memory_descriptor \<Rightarrow> init_state \<Rightarrow>
   mm_error + (memory_descriptor \<times> init_state)" where
  "init_iteration free_type cfg d st =
     (if \<not> IS_PHYSICAL_MEMORY_TYPE (Type d) then Inr (d, st)
      else if TotalMemoryPages st \<noteq> 0 \<and> PagesInitialized st = TotalMemoryPages st then Inr (d, st)
      else
        let LowestPhysicalAddress = push_bit PAGE_SHIFT (MmLowestPhysicalPage cfg) in
        if BaseAddress d + Size d < LowestPhysicalAddress then Inr (d, st)
        else if MmMaximumPhysicalAddress cfg \<noteq> 0 \<and> BaseAddress d \<ge> MmMaximumPhysicalAddress cfg
        then Inr (d, st)
        else
          let d1 = (if MmMaximumPhysicalAddress cfg \<noteq> 0 \<and>
                       BaseAddress d + Size d > MmMaximumPhysicalAddress cfg
                    then d\<lparr>Size := MmMaximumPhysicalAddress cfg - BaseAddress d\<rparr> else d)
          in if BaseAddress d1 AND (PAGE_SIZE - 1) \<noteq> 0 \<or> Size d1 AND (PAGE_SIZE - 1) \<noteq> 0
             then Inl AssertionFailed
             else if BaseAddress d1 = 0 \<and> free_type (Type d1) \<and> MmPhysicalPageZeroAllocated st
             then Inl AssertionFailed
             else
               let zero = (BaseAddress d1 = 0 \<and> free_type (Type d1));
                   d2 = (if zero then d1\<lparr>BaseAddress := BaseAddress d1 + PAGE_SIZE,
                                         Size := Size d1 - PAGE_SIZE\<rparr> else d1);
                   st1 = (if zero then st\<lparr>MmPhysicalPageZeroAllocated := True\<rparr> else st)
               in if zero \<and> Size d2 = 0 then Inr (d2, st1)
                  else
                    let st2 = st1\<lparr>TotalMemoryBytes := TotalMemoryBytes st1 + Size d2\<rparr>;
                        st3 = (if LastEnd st2 = 0 \<or> LastEnd st2 \<noteq> BaseAddress d2
                               then
                                 let st' = st2\<lparr>TotalSegments := TotalSegments st2 + 1\<rparr> in
                                 if CurrentPage st'
                                 then st'\<lparr>SegmentList := SegmentList st' @
                                          [\<lparr>StartAddress = BaseAddress d2,
                                            EndAddress = BaseAddress d2, FreePages = 0,
                                            Pages = []\<rparr>]\<rparr>
                                 else st'
                               else st2)
                    in if CurrentPage st3 then
                         if SegmentList st3 = [] then Inl AccessViolation
                         else
                           let st4 = (if BaseAddress d2 < LowestPhysicalAddress
                                      then st3\<lparr>SegmentList := butlast (SegmentList st3) @
                                             [(last (SegmentList st3))
                                                \<lparr>StartAddress := LowestPhysicalAddress,
                                                 EndAddress := LowestPhysicalAddress\<rparr>]\<rparr>
                                      else st3);
                               PageCount = drop_bit PAGE_SHIFT (Size d2);
                               PageCount = (if BaseAddress d2 < LowestPhysicalAddress
                                            then PageCount - drop_bit PAGE_SHIFT
                                                   (LowestPhysicalAddress -
                                                    StartAddress (last (SegmentList st4)))
                                            else PageCount)
                           in case init_pages (free_type (Type d2)) (unat PageCount) st4 of
                                Inl e \<Rightarrow> Inl e
                              | Inr st5 \<Rightarrow>
                                  Inr (d2, st5\<lparr>LastEnd := EndAddress (last (SegmentList st5))\<rparr>)
                       else Inr (d2, st3\<lparr>LastEnd := BaseAddress d2 + Size d2\<rparr>))"

text \<open>\<open>MmMdIterate\<close> with the routine above: the descriptors in order.\<close>

fun init_iterate ::
  "(memory_type \<Rightarrow> bool) \<Rightarrow> init_settings \<Rightarrow> memory_descriptor list \<Rightarrow> init_state \<Rightarrow>
   mm_error + (memory_descriptor list \<times> init_state)" where
  "init_iterate free_type cfg [] st = Inr ([], st)"
| "init_iterate free_type cfg (d # ds) st =
     (case init_iteration free_type cfg d st of
        Inl e \<Rightarrow> Inl e
      | Inr (d', st1) \<Rightarrow>
          (case init_iterate free_type cfg ds st1 of
             Inl e \<Rightarrow> Inl e
           | Inr (ds', st2) \<Rightarrow> Inr (d' # ds', st2)))"

text \<open>
  \<open>RtlFindLastSet\<close>, from the runtime library: the position, counted from 1, of the
  highest bit set, and 0 for 0.
\<close>

fun last_set_below :: "nat \<Rightarrow> uintn \<Rightarrow> nat" where
  "last_set_below 0 v = 0"
| "last_set_below (Suc n) v = (if bit v n then Suc n else last_set_below n v)"

definition RtlFindLastSet :: "uintn \<Rightarrow> nat" where
  "RtlFindLastSet v = last_set_below 32 v"

text \<open>
  \<open>MmpInitializePhysicalPageAllocator\<close>. The x86 sizes are 4 bytes for a
  \<open>PHYSICAL_PAGE\<close> and 32 for a \<open>PHYSICAL_MEMORY_SEGMENT\<close>. The bootstrap allocator
  \<open>MmpEarlyAllocateMemory\<close> is not among the sources; it is the parameter \<open>early\<close>,
  which gives the memory map after carving the pages, or \<open>None\<close> when it has no memory.
  The result is \<open>STATUS_NO_MEMORY\<close> or the database. A total below 100 pages leaves the
  mask computation with a shift by \<open>-1\<close>, which C does not define.
\<close>

definition MmpInitializePhysicalPageAllocator ::
  "(memory_type \<Rightarrow> bool) \<Rightarrow> (memory_descriptor list \<Rightarrow> ulong \<Rightarrow> memory_descriptor list option) \<Rightarrow>
   init_settings \<Rightarrow> memory_descriptor list \<Rightarrow> mm_error + (kstatus + mm_state \<times> bool)" where
  "MmpInitializePhysicalPageAllocator free_type early cfg MemoryMap =
     (case init_iterate free_type cfg MemoryMap
             \<lparr>TotalMemoryBytes = 0, TotalSegments = 0, LastEnd = 0, CurrentPage = False,
              PagesInitialized = 0, TotalMemoryPages = 0, SegmentList = [],
              AllocatedPages = 0, NonPagedPages = 0, MmPhysicalPageZeroAllocated = False\<rparr> of
        Inl e \<Rightarrow> Inl e
      | Inr (walked0, c1) \<Rightarrow>
          (let pages = drop_bit PAGE_SHIFT (TotalMemoryBytes c1);
               pages = (if MmLimitTotalPhysicalPages cfg \<noteq> 0 \<and>
                           pages > ucast (MmLimitTotalPhysicalPages cfg)
                        then ucast (MmLimitTotalPhysicalPages cfg) else pages);
               AllocationSize = (ucast (pages * 4 + ucast (TotalSegments c1) * 32) :: ulong);
               AllocationPageCount =
                 drop_bit PAGE_SHIFT ((AllocationSize + 4096 - 1) AND NOT (4096 - 1))
           in case early walked0 AllocationPageCount of
                None \<Rightarrow> Inr (Inl STATUS_NO_MEMORY)
              | Some carved \<Rightarrow>
                  (case init_iterate free_type cfg carved
                          (c1\<lparr>TotalMemoryPages := pages, CurrentPage := True, TotalSegments := 0,
                              TotalMemoryBytes := 0, LastEnd := 0\<rparr>) of
                     Inl e \<Rightarrow> Inl e
                   | Inr (walked, c2) \<Rightarrow>
                       (let total = (ucast (TotalMemoryPages c2) :: uintn);
                            minfree = (total * 5) div 100;
                            counted = (total * 1) div 100;
                            LastBitIndex = RtlFindLastSet counted
                        in if \<not> minfree > 0 then Inl AssertionFailed
                           else if LastBitIndex = 0 then Inl UndefinedBehaviour
                           else
                             Inr (Inr
                               (\<lparr>Segments = SegmentList c2,
                                 PagingEntries = Map.empty,
                                 MmTotalPhysicalPages = total,
                                 MmTotalAllocatedPhysicalPages = AllocatedPages c2,
                                 MmMinimumFreePhysicalPages = minfree,
                                 MmNonPagedPhysicalPages = NonPagedPages c2,
                                 MmLastAllocatedSegment = 0,
                                 MmLastAllocatedSegmentOffset = 0,
                                 MmLastPagedSegment = 0,
                                 MmLastPagedSegmentOffset = 0,
                                 MmPhysicalMemoryWarningLevel = MemoryWarningLevelNone,
                                 MmPhysicalMemoryWarningLevel1HighPages = ucast ((total * 97) div 100),
                                 MmPhysicalMemoryWarningLevel1LowPages = ucast ((total * 95) div 100),
                                 MmPhysicalMemoryWarningLevel2HighPages = ucast ((total * 90) div 100),
                                 MmPhysicalMemoryWarningLevel2LowPages = ucast ((total * 87) div 100),
                                 MmPhysicalMemoryWarningCountMask =
                                   push_bit (LastBitIndex - 1) 1 - 1,
                                 MmPhysicalMemoryAllocationCount = 0,
                                 MmPhysicalMemoryFreeCount = 0\<rparr>,
                                MmPhysicalPageZeroAllocated c2))))))"

text \<open>
  Modelled from the spec: \<open>MmpEarlyAllocateMemory\<close>, which is not among the sources. The
  spec has "a bootstrap allocator that bites off the front of free descriptors": the first
  free descriptor that is large enough loses its first \<open>n\<close> pages to a new descriptor of
  type "MM structures".
\<close>

fun early_allocate :: "memory_descriptor list \<Rightarrow> ulong \<Rightarrow> memory_descriptor list option" where
  "early_allocate [] n = None"
| "early_allocate (d # ds) n =
     (if Type d = MemoryTypeFree \<and> Size d \<ge> push_bit PAGE_SHIFT (ucast n)
      then Some (\<lparr>BaseAddress = BaseAddress d, Size = push_bit PAGE_SHIFT (ucast n),
                   Type = MemoryTypeMmStructures\<rparr> #
                 d\<lparr>BaseAddress := BaseAddress d + push_bit PAGE_SHIFT (ucast n),
                   Size := Size d - push_bit PAGE_SHIFT (ucast n)\<rparr> # ds)
      else map_option ((#) d) (early_allocate ds n))"

text \<open>
  What the page loop makes of a segment when it runs \<open>n\<close> times: \<open>n\<close> more page
  records, all free or all non-paged, and the end address moved up behind them.
\<close>

definition fill_segment :: "bool \<Rightarrow> nat \<Rightarrow> physical_memory_segment \<Rightarrow> physical_memory_segment" where
  "fill_segment FreePage n g =
     g\<lparr>EndAddress := EndAddress g + of_nat n * PAGE_SIZE,
       FreePages := (if FreePage then FreePages g + of_nat n else FreePages g),
       Pages := Pages g @ replicate n (if FreePage then PHYSICAL_PAGE_FREE
                                       else PHYSICAL_PAGE_FLAG_NON_PAGED)\<rparr>"

text \<open>
  A boot configuration: only the type "free" counts as free memory, and the three tuning
  globals have the values physical.c gives them. \<open>booted_mm\<close> is the database for
  64 MiB of memory whose first page is left out: 16383 pages in one segment, the first 17
  of them holding the database itself.
\<close>

definition boot_free_type :: "memory_type \<Rightarrow> bool" where
  "boot_free_type t \<longleftrightarrow> t = MemoryTypeFree"

definition default_settings :: init_settings where
  "default_settings =
     \<lparr>MmLimitTotalPhysicalPages = 0, MmMaximumPhysicalAddress = 0x100000000,
      MmLowestPhysicalPage = 0\<rparr>"

definition booted_mm :: mm_state where
  "booted_mm =
     \<lparr>Segments = [\<lparr>StartAddress = 0x1000, EndAddress = 0x4000000, FreePages = 16366,
                   Pages = replicate 17 1 @ replicate 16366 0\<rparr>],
      PagingEntries = Map.empty,
      MmTotalPhysicalPages = 16383,
      MmTotalAllocatedPhysicalPages = 17,
      MmMinimumFreePhysicalPages = 819,
      MmNonPagedPhysicalPages = 17,
      MmLastAllocatedSegment = 0,
      MmLastAllocatedSegmentOffset = 0,
      MmLastPagedSegment = 0,
      MmLastPagedSegmentOffset = 0,
      MmPhysicalMemoryWarningLevel = MemoryWarningLevelNone,
      MmPhysicalMemoryWarningLevel1HighPages = 15891,
      MmPhysicalMemoryWarningLevel1LowPages = 15563,
      MmPhysicalMemoryWarningLevel2HighPages = 14744,
      MmPhysicalMemoryWarningLevel2LowPages = 14253,
      MmPhysicalMemoryWarningCountMask = 127,
      MmPhysicalMemoryAllocationCount = 0,
      MmPhysicalMemoryFreeCount = 0\<rparr>"

section \<open>The x86 page tables (kernel/mm/x86/mapping.c)\<close>

text \<open>
  A \<open>PTE\<close> is the 32-bit x86 page table entry: bit 0 is \<open>Present\<close>, bit 6 is
  \<open>Dirty\<close>, and the upper 20 bits are \<open>Entry\<close>, the physical frame number. Page
  directory and page tables are frames of 1024 entries; \<open>Ram\<close> gives the entries of a
  frame. The self map makes \<open>X86_PDT\<close> the frame of the current page directory and
  \<open>GET_PAGE_TABLE(i)\<close> the frame that directory entry \<open>i\<close> points to;
  \<open>MmKernelPageDirectory\<close> is the frame of the kernel's page directory. \<open>ResidentSet\<close>
  is the counter of the current address space.
\<close>

type_synonym pte = "32 word"



definition pte_Entry :: "pte \<Rightarrow> nat" where
  "pte_Entry e = unat (drop_bit 12 e)"

definition clear_Present :: "pte \<Rightarrow> pte" where
  "clear_Present e = e AND NOT 1"









































section \<open>Verified properties\<close>

subsection \<open>Segment lookup and bit masks\<close>










lemma bare_flag_masked:
  "PHYSICAL_PAGE_FLAG_NON_PAGED AND NOT PHYSICAL_PAGE_FLAG_NON_PAGED = 0"
  by simp

subsection \<open>Page cache entries\<close>



subsection \<open>Locking and unlocking\<close>

lemma with_locks_simps [simp]:
  "Segments (with_locks s h np) = Segments s"
  "PagingEntries (with_locks s h np) = h"
  "MmNonPagedPhysicalPages (with_locks s h np) = np"
  "with_locks (with_locks s h np) h' np' = with_locks s h' np'"
  "with_locks s (PagingEntries s) (MmNonPagedPhysicalPages s) = s"
  "with_locks s h np\<lparr>MmNonPagedPhysicalPages := np'\<rparr> = with_locks s h np'"
  "with_locks s h np\<lparr>PagingEntries := h'\<rparr> = with_locks s h' np"
  by (simp_all add: with_locks_def)
lemma lift_lock_simps [simp]:
  "lift_lock s (Inl e) = Inl e"
  "lift_lock s (Inr (st, j, h, np)) = Inr (st, j, with_locks s h np)"
  by (simp_all add: lift_lock_def)
lemma lift_unlock_simps [simp]:
  "lift_unlock s (Inl e) = Inl e"
  "lift_unlock s (Inr (h, np)) = Inr (with_locks s h np)"
  by (simp_all add: lift_unlock_def)
lemma lock_loop_run:
  "Offset + PageIndex + n \<le> MaxOffset \<Longrightarrow>
   Offset + PageIndex + n \<le> length (Pages (Segments s ! k)) \<Longrightarrow>
   lock_loop k Offset MaxOffset PageIndex n (with_locks s h np) =
     lift_lock s
       (lock_run (take n (drop (Offset + PageIndex) (Pages (Segments s ! k)))) PageIndex h np)"
proof (induction n arbitrary: PageIndex h np)
  case 0
  then show ?case by simp
next
  case (Suc n)
  let ?ps = "Pages (Segments s ! k)"
  let ?i = "Offset + PageIndex"
  have i: "?i < length ?ps" "?i < MaxOffset" using Suc.prems by auto
  have split: "take (Suc n) (drop ?i ?ps) = ?ps ! ?i # take n (drop (Offset + Suc PageIndex) ?ps)"
    using i(1) by (simp add: Cons_nth_drop_Suc [symmetric])
  have ih: "lock_loop k Offset MaxOffset (Suc PageIndex) n (with_locks s h' np') =
     lift_lock s
       (lock_run (take n (drop (Offset + Suc PageIndex) ?ps)) (Suc PageIndex) h' np')" for h' np'
    using Suc.prems by (intro Suc.IH) auto
  show ?case
    unfolding split
    using i
    by (simp add: Let_def ih split: option.splits)
qed
lemma unlock_loop_run:
  "Offset + PageIndex + n \<le> MaxOffset \<Longrightarrow>
   Offset + PageIndex + n \<le> length (Pages (Segments s ! k)) \<Longrightarrow>
   unlock_loop k Offset MaxOffset PageIndex n (with_locks s h np) =
     lift_unlock s
       (unlock_run (take n (drop (Offset + PageIndex) (Pages (Segments s ! k)))) h np)"
proof (induction n arbitrary: PageIndex h np)
  case 0
  then show ?case by simp
next
  case (Suc n)
  let ?ps = "Pages (Segments s ! k)"
  let ?i = "Offset + PageIndex"
  have i: "?i < length ?ps" "?i < MaxOffset" using Suc.prems by auto
  have split: "take (Suc n) (drop ?i ?ps) = ?ps ! ?i # take n (drop (Offset + Suc PageIndex) ?ps)"
    using i(1) by (simp add: Cons_nth_drop_Suc [symmetric])
  have ih: "unlock_loop k Offset MaxOffset (Suc PageIndex) n (with_locks s h' np') =
     lift_unlock s
       (unlock_run (take n (drop (Offset + Suc PageIndex) ?ps)) h' np')" for h' np'
    using Suc.prems by (intro Suc.IH) auto
  show ?case
    unfolding split
    using i
    by (simp add: Let_def ih split: option.splits)
qed
lemma lock_run_frame:
  "lock_run ws j h np = Inr (st, j', h', np') \<Longrightarrow>
   a \<notin> set ws \<or> a AND PHYSICAL_PAGE_FLAG_NON_PAGED \<noteq> 0 \<Longrightarrow> h' a = h a"
proof (induction ws arbitrary: j h np)
  case Nil
  then show ?case by simp
next
  case (Cons w ws)
  then show ?case
    by (auto split: if_splits option.splits)
qed

lemma unlock_run_step:
  "v \<noteq> PHYSICAL_PAGE_FREE \<Longrightarrow> v AND PHYSICAL_PAGE_FLAG_NON_PAGED = 0 \<Longrightarrow> h v = Some pe \<Longrightarrow>
   LockCount pe \<noteq> 0 \<Longrightarrow>
   unlock_run (v # ws) h np =
     unlock_run ws (h(v \<mapsto> pe\<lparr>LockCount := LockCount pe - 1\<rparr>))
       (if LockCount pe - 1 = 0 then np - 1 else np)"
  by simp

lemma unlock_run_skip:
  "v \<noteq> PHYSICAL_PAGE_FREE \<Longrightarrow> v AND PHYSICAL_PAGE_FLAG_NON_PAGED \<noteq> 0 \<Longrightarrow>
   unlock_run (v # ws) h np = unlock_run ws h np"
  by simp

lemma unlock_run_frame:
  "unlock_run ws h np = Inr (h2, np2) \<Longrightarrow>
   w \<notin> set ws \<or> w AND PHYSICAL_PAGE_FLAG_NON_PAGED \<noteq> 0 \<Longrightarrow>
   unlock_run ws (h(w \<mapsto> x)) (np + d) = Inr (h2(w \<mapsto> x), np2 + d)"
proof (induction ws arbitrary: h np)
  case Nil
  then show ?case by simp
next
  case (Cons v ws)
  show ?case
  proof (cases "v AND PHYSICAL_PAGE_FLAG_NON_PAGED \<noteq> 0")
    case True
    with Cons show ?thesis by (auto split: if_splits)
  next
    case False
    with Cons.prems have vw: "v \<noteq> w" by auto
    from False Cons.prems obtain pe where pe: "h v = Some pe" "LockCount pe \<noteq> 0" "v \<noteq> PHYSICAL_PAGE_FREE"
      by (auto split: if_splits option.splits)
    let ?h1 = "h(v \<mapsto> pe\<lparr>LockCount := LockCount pe - 1\<rparr>)"
    let ?np1 = "if LockCount pe - 1 = 0 then np - 1 else np"
    have tail: "unlock_run ws ?h1 ?np1 = Inr (h2, np2)"
      using Cons.prems(1) False pe by simp
    have "unlock_run ws (?h1(w \<mapsto> x)) (?np1 + d) = Inr (h2(w \<mapsto> x), np2 + d)"
      using Cons.prems(2) by (intro Cons.IH [OF tail]) auto
    moreover have "?h1(w \<mapsto> x) = (h(w \<mapsto> x))(v \<mapsto> pe\<lparr>LockCount := LockCount pe - 1\<rparr>)"
      using vw by (simp add: fun_upd_twist)
    moreover have "?np1 + d = (if LockCount pe - 1 = 0 then np + d - 1 else np + d)"
      by simp
    moreover have "unlock_run (v # ws) (h(w \<mapsto> x)) (np + d) =
        unlock_run ws ((h(w \<mapsto> x))(v \<mapsto> pe\<lparr>LockCount := LockCount pe - 1\<rparr>))
          (if LockCount pe - 1 = 0 then np + d - 1 else np + d)"
      using False pe vw by (intro unlock_run_step) auto
    ultimately show ?thesis
      by (simp only:)
  qed
qed

lemma run_wf_Cons:
  "run_wf h (w # ws) \<Longrightarrow> run_wf h ws"
  by (auto simp: run_wf_def split: if_splits)

lemma run_wf_upd:
  "run_wf h ws \<Longrightarrow> run_wf (h(w \<mapsto> x)) ws"
  by (auto simp: run_wf_def)

lemma at_cap_upd_other:
  "v \<noteq> w \<Longrightarrow> at_cap (h(w \<mapsto> x)) v = at_cap h v"
  by (simp add: at_cap_def)

text \<open>Undoing the first page of a run whose remaining pages have been undone already.\<close>

lemma unlock_after_lock_head:
  assumes w: "w \<noteq> PHYSICAL_PAGE_FREE" "w AND PHYSICAL_PAGE_FLAG_NON_PAGED = 0"
    and pe: "h w = Some pe"
    and fresh: "w \<notin> set xs"
    and hw: "h' w = Some (pe\<lparr>LockCount := LockCount pe + 1\<rparr>)"
    and tail: "unlock_run xs h' np' =
          Inr (h(w \<mapsto> pe\<lparr>LockCount := LockCount pe + 1\<rparr>), if LockCount pe = 0 then np + 1 else np)"
  shows "unlock_run (w # xs) h' np' = Inr (h, np)"
proof -
  let ?pe1 = "pe\<lparr>LockCount := LockCount pe + 1\<rparr>"
  let ?d = "if LockCount pe = 0 then - 1 else (0::uintn)"
  have "unlock_run (w # xs) h' np' =
          unlock_run xs (h'(w \<mapsto> ?pe1\<lparr>LockCount := LockCount ?pe1 - 1\<rparr>))
            (if LockCount ?pe1 - 1 = 0 then np' - 1 else np')"
    using w hw by (intro unlock_run_step) auto
  also have "\<dots> = unlock_run xs (h'(w \<mapsto> pe)) (np' + ?d)"
    by simp
  also have "\<dots> = Inr ((h(w \<mapsto> ?pe1))(w \<mapsto> pe), (if LockCount pe = 0 then np + 1 else np) + ?d)"
    using fresh by (intro unlock_run_frame [OF tail]) simp
  also have "(h(w \<mapsto> ?pe1))(w \<mapsto> pe) = h"
    using pe by (simp add: map_upd_triv)
  also have "(if LockCount pe = 0 then np + 1 else np) + ?d = np"
    by simp
  finally show ?thesis .
qed

lemma lock_run_char:
  assumes "run_wf h ws"
  shows "(if \<exists>w\<in>set ws. at_cap h w
          then \<exists>j' h' np'. lock_run ws j h np = Inr (STATUS_RESOURCE_IN_USE, j', h', np') \<and>
                 j \<le> j' \<and> j' < j + length ws \<and>
                 unlock_run (take (j' - j) ws) h' np' = Inr (h, np)
          else \<exists>h' np'. lock_run ws j h np = Inr (STATUS_SUCCESS, j + length ws, h', np') \<and>
                 unlock_run ws h' np' = Inr (h, np))"
  using assms
proof (induction ws arbitrary: j h np)
  case Nil
  then show ?case by simp
next
  case (Cons w ws)
  from Cons.prems have w0: "w \<noteq> PHYSICAL_PAGE_FREE" by (simp add: run_wf_def)
  have wf: "run_wf h ws" using Cons.prems by (rule run_wf_Cons)
  show ?case
  proof (cases "w AND PHYSICAL_PAGE_FLAG_NON_PAGED \<noteq> 0")
    case True
    then have nocap: "\<not> at_cap h w" by (simp add: at_cap_def)
    have step: "lock_run (w # ws) j h np = lock_run ws (Suc j) h np"
      using True w0 by simp
    show ?thesis
    proof (cases "\<exists>v\<in>set ws. at_cap h v")
      case cap: True
      from Cons.IH [OF wf, of "Suc j" np, unfolded if_P [OF cap]] obtain j' h' np' where
        r: "lock_run ws (Suc j) h np = Inr (STATUS_RESOURCE_IN_USE, j', h', np')"
        and b: "Suc j \<le> j'" "j' < Suc j + length ws"
        and u: "unlock_run (take (j' - Suc j) ws) h' np' = Inr (h, np)"
        by blast
      from b have "j' - j = Suc (j' - Suc j)" by arith
      then have tk: "take (j' - j) (w # ws) = w # take (j' - Suc j) ws"
        by simp
      have "unlock_run (take (j' - j) (w # ws)) h' np' = Inr (h, np)"
        unfolding tk using True w0 u by simp
      with r b cap step show ?thesis by auto
    next
      case nocap': False
      from Cons.IH [OF wf, of "Suc j" np, unfolded if_not_P [OF nocap']] obtain h' np' where
        r: "lock_run ws (Suc j) h np = Inr (STATUS_SUCCESS, Suc j + length ws, h', np')"
        and u: "unlock_run ws h' np' = Inr (h, np)"
        by blast
      have "unlock_run (w # ws) h' np' = Inr (h, np)"
        using True w0 u by simp
      with r nocap nocap' step show ?thesis by auto
    qed
  next
    case False
    then have pg: "w AND PHYSICAL_PAGE_FLAG_NON_PAGED = 0" by simp
    with Cons.prems obtain pe where pe: "h w = Some pe" by (auto simp: run_wf_def)
    from Cons.prems pg have fresh: "w \<notin> set ws" by (auto simp: run_wf_def)
    show ?thesis
    proof (cases "LockCount pe = MAX_PHYSICAL_PAGE_LOCK_COUNT")
      case True
      then have "at_cap h w" using pg pe by (simp add: at_cap_def)
      moreover have "lock_run (w # ws) j h np = Inr (STATUS_RESOURCE_IN_USE, j, h, np)"
        using True pg pe w0 by simp
      ultimately show ?thesis by auto
    next
      case notcap: False
      then have nocap: "\<not> at_cap h w" using pe by (simp add: at_cap_def)
      let ?pe1 = "pe\<lparr>LockCount := LockCount pe + 1\<rparr>"
      let ?h1 = "h(w \<mapsto> ?pe1)"
      let ?np1 = "if LockCount pe = 0 then np + 1 else np"
      have step: "lock_run (w # ws) j h np = lock_run ws (Suc j) ?h1 ?np1"
        using notcap pg pe w0 by simp
      have wf1: "run_wf ?h1 ws" using wf by (rule run_wf_upd)
      have capeq: "(\<exists>v\<in>set ws. at_cap ?h1 v) = (\<exists>v\<in>set ws. at_cap h v)"
        using fresh by (metis at_cap_upd_other)
      show ?thesis
      proof (cases "\<exists>v\<in>set ws. at_cap h v")
        case cap: True
        with capeq have cap1: "\<exists>v\<in>set ws. at_cap ?h1 v" by simp
        from Cons.IH [OF wf1, of "Suc j" ?np1, unfolded if_P [OF cap1]] obtain j' h' np' where
          r: "lock_run ws (Suc j) ?h1 ?np1 = Inr (STATUS_RESOURCE_IN_USE, j', h', np')"
          and b: "Suc j \<le> j'" "j' < Suc j + length ws"
          and u: "unlock_run (take (j' - Suc j) ws) h' np' = Inr (?h1, ?np1)"
          by blast
        from b have "j' - j = Suc (j' - Suc j)" by arith
        then have tk: "take (j' - j) (w # ws) = w # take (j' - Suc j) ws"
          by simp
        have hw: "h' w = Some ?pe1"
          using lock_run_frame [OF r, of w] fresh by simp
        have fresh': "w \<notin> set (take (j' - Suc j) ws)"
          using fresh by (auto dest: in_set_takeD)
        have "unlock_run (w # take (j' - Suc j) ws) h' np' = Inr (h, np)"
          using w0 pg pe fresh' hw u by (rule unlock_after_lock_head)
        with r b cap step tk show ?thesis by auto
      next
        case nocap': False
        with capeq have nocap1: "\<not> (\<exists>v\<in>set ws. at_cap ?h1 v)" by simp
        from Cons.IH [OF wf1, of "Suc j" ?np1, unfolded if_not_P [OF nocap1]] obtain h' np' where
          r: "lock_run ws (Suc j) ?h1 ?np1 = Inr (STATUS_SUCCESS, Suc j + length ws, h', np')"
          and u: "unlock_run ws h' np' = Inr (?h1, ?np1)"
          by blast
        have hw: "h' w = Some ?pe1"
          using lock_run_frame [OF r, of w] fresh by simp
        have "unlock_run (w # ws) h' np' = Inr (h, np)"
          using w0 pg pe fresh hw u by (rule unlock_after_lock_head)
        with r nocap nocap' step show ?thesis by auto
      qed
    qed
  qed
qed
lemma run_pagesD:
  assumes "run_pages s pa n = Some ws"
  obtains k where "find_segment (Segments s) pa 0 = Some k"
    and "page_offset (Segments s ! k) pa + n \<le> length (Pages (Segments s ! k))"
    and "page_offset (Segments s ! k) pa + n \<le> unat (segment_page_count (Segments s ! k))"
    and "ws = take n (drop (page_offset (Segments s ! k) pa) (Pages (Segments s ! k)))"
  using assms by (auto simp: run_pages_def Let_def split: option.splits if_splits)

lemma lock_loop_on_run:
  assumes "page_offset g pa + n \<le> length (Pages g)" "page_offset g pa + n \<le> m"
    and "g = Segments s ! k"
  shows "lock_loop k (page_offset g pa) m 0 n s =
     lift_lock s (lock_run (take n (drop (page_offset g pa) (Pages g))) 0
        (PagingEntries s) (MmNonPagedPhysicalPages s))"
  using lock_loop_run [of "page_offset g pa" 0 n m s k "PagingEntries s" "MmNonPagedPhysicalPages s"] assms
  by simp

lemma unlock_loop_on_run:
  assumes "page_offset g pa + n \<le> length (Pages g)" "page_offset g pa + n \<le> m"
    and "g = Segments s ! k"
  shows "unlock_loop k (page_offset g pa) m 0 n (with_locks s h np) =
     lift_unlock s (unlock_run (take n (drop (page_offset g pa) (Pages g))) h np)"
  using unlock_loop_run [of "page_offset g pa" 0 n m s k h np] assms
  by simp

lemma unlock_on_run:
  assumes k: "find_segment (Segments s) pa 0 = Some k"
    and len: "page_offset (Segments s ! k) pa + n \<le> length (Pages (Segments s ! k))"
    and mx: "page_offset (Segments s ! k) pa + n \<le> unat (segment_page_count (Segments s ! k))"
    and j: "j \<le> n" "n < 2 ^ 32"
  shows "MmpUnlockPhysicalPages (with_locks s h np) pa (of_nat j) =
     lift_unlock s (unlock_run (take j (take n (drop (page_offset (Segments s ! k) pa)
        (Pages (Segments s ! k))))) h np)"
proof -
  have u: "unat (of_nat j :: ulong) = j"
    using j by (simp add: unat_of_nat)
  have "unlock_loop k (page_offset (Segments s ! k) pa) (unat (segment_page_count (Segments s ! k))) 0 j
          (with_locks s h np) =
        lift_unlock s (unlock_run (take j (drop (page_offset (Segments s ! k) pa)
          (Pages (Segments s ! k)))) h np)"
    using len mx j by (intro unlock_loop_on_run) auto
  moreover have "take j (take n xs) = take j xs" for xs :: "uintn list"
    using j by (simp add: min_def)
  ultimately show ?thesis
    using k u by (simp add: MmpUnlockPhysicalPages_def Let_def)
qed
lemma example_run_2: "run_pages example_mm 0x1000 2 = Some [1, 0x2000]"
  by (simp add: run_pages_def example_mm_def page_offset_def segment_page_count_def PAGE_SHIFT_def Let_def)

lemma example_run_3: "run_pages example_mm 0x1000 3 = Some [1, 0x2000, 0x3000]"
  by (simp add: run_pages_def example_mm_def page_offset_def segment_page_count_def PAGE_SHIFT_def Let_def)

text \<open>
  C6. On a well-formed run, \<open>MmpLockPhysicalPages\<close> returns success or "resource in
  use"; it returns "resource in use" exactly when some pagable frame of the run has its
  paging entry's lock count at the cap of 15; and when it does, the paging entries and
  \<open>MmNonPagedPhysicalPages\<close> are what they were before the call.
\<close>

theorem lock_failure_undone:
  assumes run: "run_pages s pa (unat PageCount) = Some ws"
    and wf: "run_wf (PagingEntries s) ws"
  shows "(\<exists>st s'. MmpLockPhysicalPages s pa PageCount = Inr (st, s') \<and>
            (st = STATUS_SUCCESS \<or> st = STATUS_RESOURCE_IN_USE))
       \<and> ((\<exists>s'. MmpLockPhysicalPages s pa PageCount = Inr (STATUS_RESOURCE_IN_USE, s')) \<longleftrightarrow>
            (\<exists>w\<in>set ws. at_cap (PagingEntries s) w))
       \<and> (\<forall>s'. MmpLockPhysicalPages s pa PageCount = Inr (STATUS_RESOURCE_IN_USE, s') \<longrightarrow>
            PagingEntries s' = PagingEntries s \<and>
            MmNonPagedPhysicalPages s' = MmNonPagedPhysicalPages s)"
proof -
  let ?n = "unat PageCount"
  let ?h = "PagingEntries s"
  let ?np = "MmNonPagedPhysicalPages s"
  from run obtain k where k: "find_segment (Segments s) pa 0 = Some k"
    and len: "page_offset (Segments s ! k) pa + ?n \<le> length (Pages (Segments s ! k))"
    and mx: "page_offset (Segments s ! k) pa + ?n \<le> unat (segment_page_count (Segments s ! k))"
    and ws: "ws = take ?n (drop (page_offset (Segments s ! k) pa) (Pages (Segments s ! k)))"
    by (rule run_pagesD)
  have loop: "lock_loop k (page_offset (Segments s ! k) pa)
        (unat (segment_page_count (Segments s ! k))) 0 ?n s = lift_lock s (lock_run ws 0 ?h ?np)"
    unfolding ws using len mx by (intro lock_loop_on_run) auto
  have n32: "?n < 2 ^ 32" using unsigned_less [of PageCount, where 'a = nat] by simp
  show ?thesis
  proof (cases "\<exists>w\<in>set ws. at_cap ?h w")
    case True
    from lock_run_char [OF wf, of 0 ?np, unfolded if_P [OF True]] obtain j' h' np' where
      r: "lock_run ws 0 ?h ?np = Inr (STATUS_RESOURCE_IN_USE, j', h', np')"
      and b: "j' < 0 + length ws"
      and u: "unlock_run (take (j' - 0) ws) h' np' = Inr (?h, ?np)"
      by blast
    have jn: "j' \<le> ?n" using b ws by simp
    have "MmpLockPhysicalPages s pa PageCount = Inr (STATUS_RESOURCE_IN_USE, s)"
    proof (cases "j' = 0")
      case True
      with u have "h' = ?h" "np' = ?np" by simp_all
      with True k loop r show ?thesis
        by (simp add: MmpLockPhysicalPages_def Let_def)
    next
      case False
      have "MmpUnlockPhysicalPages (with_locks s h' np') pa (of_nat j') =
              lift_unlock s (unlock_run (take j' ws) h' np')"
        unfolding ws using k len mx jn n32 by (rule unlock_on_run)
      with u have "MmpUnlockPhysicalPages (with_locks s h' np') pa (of_nat j') = Inr s"
        by simp
      with False k loop r show ?thesis
        by (simp add: MmpLockPhysicalPages_def Let_def)
    qed
    with True show ?thesis by simp
  next
    case False
    from lock_run_char [OF wf, of 0 ?np, unfolded if_not_P [OF False]] obtain h' np' where
      r: "lock_run ws 0 ?h ?np = Inr (STATUS_SUCCESS, 0 + length ws, h', np')"
      by blast
    have "MmpLockPhysicalPages s pa PageCount = Inr (STATUS_SUCCESS, with_locks s h' np')"
      using k loop r by (simp add: MmpLockPhysicalPages_def Let_def)
    with False show ?thesis by simp
  qed
qed

theorem lock_failure_undone_witness:
  "run_pages example_mm 0x1000 (unat (3::ulong)) = Some [1, 0x2000, 0x3000] \<and>
   run_wf (PagingEntries example_mm) [1, 0x2000, 0x3000] \<and>
   (\<exists>w\<in>set [1, 0x2000, 0x3000]. at_cap (PagingEntries example_mm) w) \<and>
   (\<exists>s'. MmpLockPhysicalPages example_mm 0x1000 3 = Inr (STATUS_RESOURCE_IN_USE, s') \<and>
         PagingEntries s' = PagingEntries example_mm \<and>
         MmNonPagedPhysicalPages s' = MmNonPagedPhysicalPages example_mm)"
proof -
  have r: "run_pages example_mm 0x1000 (unat (3::ulong)) = Some [1, 0x2000, 0x3000]"
    using example_run_3 by simp
  have wf: "run_wf (PagingEntries example_mm) [1, 0x2000, 0x3000]"
    by (simp add: run_wf_def example_mm_def example_entries_def PHYSICAL_PAGE_FLAG_NON_PAGED_def
        PHYSICAL_PAGE_FREE_def)
  have cap: "\<exists>w\<in>set [1, 0x2000, 0x3000]. at_cap (PagingEntries example_mm) w"
    by (simp add: at_cap_def example_mm_def example_entries_def PHYSICAL_PAGE_FLAG_NON_PAGED_def
        MAX_PHYSICAL_PAGE_LOCK_COUNT_def)
  from lock_failure_undone [OF r wf] cap r wf show ?thesis by blast
qed

text \<open>
  C7. On a well-formed run in which every pagable frame's lock count is below the cap,
  \<open>MmpLockPhysicalPages\<close> succeeds, and \<open>MmpUnlockPhysicalPages\<close> on the same run then
  leaves \<open>MmNonPagedPhysicalPages\<close> and every paging entry's lock count as they were
  before the two calls.
\<close>

theorem lock_unlock_symmetry:
  assumes run: "run_pages s pa (unat PageCount) = Some ws"
    and wf: "run_wf (PagingEntries s) ws"
    and below: "\<forall>w\<in>set ws. w AND PHYSICAL_PAGE_FLAG_NON_PAGED = 0 \<longrightarrow>
          (\<exists>pe. PagingEntries s w = Some pe \<and> LockCount pe < MAX_PHYSICAL_PAGE_LOCK_COUNT)"
  shows "\<exists>s1 s2. MmpLockPhysicalPages s pa PageCount = Inr (STATUS_SUCCESS, s1) \<and>
           MmpUnlockPhysicalPages s1 pa PageCount = Inr s2 \<and>
           MmNonPagedPhysicalPages s2 = MmNonPagedPhysicalPages s \<and>
           (\<forall>a. map_option LockCount (PagingEntries s2 a) = map_option LockCount (PagingEntries s a))"
proof -
  let ?n = "unat PageCount"
  let ?h = "PagingEntries s"
  let ?np = "MmNonPagedPhysicalPages s"
  from run obtain k where k: "find_segment (Segments s) pa 0 = Some k"
    and len: "page_offset (Segments s ! k) pa + ?n \<le> length (Pages (Segments s ! k))"
    and mx: "page_offset (Segments s ! k) pa + ?n \<le> unat (segment_page_count (Segments s ! k))"
    and ws: "ws = take ?n (drop (page_offset (Segments s ! k) pa) (Pages (Segments s ! k)))"
    by (rule run_pagesD)
  have loop: "lock_loop k (page_offset (Segments s ! k) pa)
        (unat (segment_page_count (Segments s ! k))) 0 ?n s = lift_lock s (lock_run ws 0 ?h ?np)"
    unfolding ws using len mx by (intro lock_loop_on_run) auto
  have n32: "?n < 2 ^ 32" using unsigned_less [of PageCount, where 'a = nat] by simp
  from below have nocap: "\<not> (\<exists>w\<in>set ws. at_cap ?h w)"
    by (auto simp: at_cap_def)
  from lock_run_char [OF wf, of 0 ?np, unfolded if_not_P [OF nocap]] obtain h' np' where
    r: "lock_run ws 0 ?h ?np = Inr (STATUS_SUCCESS, 0 + length ws, h', np')"
    and u: "unlock_run ws h' np' = Inr (?h, ?np)"
    by blast
  have l: "MmpLockPhysicalPages s pa PageCount = Inr (STATUS_SUCCESS, with_locks s h' np')"
    using k loop r by (simp add: MmpLockPhysicalPages_def Let_def)
  have "MmpUnlockPhysicalPages (with_locks s h' np') pa (of_nat ?n) =
          lift_unlock s (unlock_run (take ?n ws) h' np')"
    unfolding ws using k len mx _ n32 by (rule unlock_on_run) simp
  moreover have "take ?n ws = ws" unfolding ws by simp
  ultimately have "MmpUnlockPhysicalPages (with_locks s h' np') pa PageCount = Inr s"
    using u by simp
  with l show ?thesis by simp
qed

theorem lock_unlock_symmetry_witness:
  "run_pages example_mm 0x1000 (unat (2::ulong)) = Some [1, 0x2000] \<and>
   run_wf (PagingEntries example_mm) [1, 0x2000] \<and>
   (\<exists>s1 s2. MmpLockPhysicalPages example_mm 0x1000 2 = Inr (STATUS_SUCCESS, s1) \<and>
           MmpUnlockPhysicalPages s1 0x1000 2 = Inr s2 \<and>
           MmNonPagedPhysicalPages s2 = MmNonPagedPhysicalPages example_mm \<and>
           (\<forall>a. map_option LockCount (PagingEntries s2 a) =
                map_option LockCount (PagingEntries example_mm a)))"
proof -
  have r: "run_pages example_mm 0x1000 (unat (2::ulong)) = Some [1, 0x2000]"
    using example_run_2 by simp
  have wf: "run_wf (PagingEntries example_mm) [1, 0x2000]"
    by (simp add: run_wf_def example_mm_def example_entries_def PHYSICAL_PAGE_FLAG_NON_PAGED_def
        PHYSICAL_PAGE_FREE_def)
  have below: "\<forall>w\<in>set [1, 0x2000 :: uintn]. w AND PHYSICAL_PAGE_FLAG_NON_PAGED = 0 \<longrightarrow>
      (\<exists>pe. PagingEntries example_mm w = Some pe \<and> LockCount pe < MAX_PHYSICAL_PAGE_LOCK_COUNT)"
    by (simp add: example_mm_def example_entries_def PHYSICAL_PAGE_FLAG_NON_PAGED_def
        MAX_PHYSICAL_PAGE_LOCK_COUNT_def)
  from lock_unlock_symmetry [OF r wf below] r wf show ?thesis by blast
qed

subsection \<open>Running the routines on concrete databases\<close>

lemmas eval_defs = mixed_mm_def mixed_entry_def PAGE_SHIFT_def PAGE_SIZE_def
  PHYSICAL_PAGE_FLAG_NON_PAGED_def PHYSICAL_PAGE_FREE_def Let_def page_offset_def
  segment_page_count_def start_page_def set_page_def word_le_nat_alt word_less_nat_alt
  nth_append

lemma free_loop_numeral:
  "free_loop k i (numeral v) st =
     (case free_one_page k i st of
        Inl e \<Rightarrow> Inl e
      | Inr st1 \<Rightarrow> free_loop k (Suc i) (pred_numeral v) st1)"
  by (simp add: numeral_eq_Suc)
lemmas find_span_numeral =
  find_span.simps(2) [where n = "pred_numeral v", folded numeral_eq_Suc] for v

lemmas find_loop_numeral =
  find_loop.simps(2) [where fuel = "pred_numeral v", folded numeral_eq_Suc] for v

lemmas allocate_mark_pages_numeral =
  allocate_mark_pages.simps(2) [where n = "pred_numeral v", folded numeral_eq_Suc] for v

lemmas find_defs = MmpFindPhysicalPages_def ALIGN_RANGE_UP_def ALIGN_RANGE_DOWN_def
  find_loop_numeral find_span_numeral

text \<open>
  C1. \<open>MmFreePhysicalPages(0x1000, 2)\<close> on the frames [non-paged, pagable and being
  paged out]: the second frame's record stays allocated, as the claim says, but the counters
  move on its account as well: \<open>MmTotalAllocatedPhysicalPages\<close> goes from 3 to 1 and the
  segment's free count from 0 to 2, because \<open>ReleasedPhysicalPage\<close> is still set from
  the first frame. Freed alone, the same frame changes nothing.
\<close>

theorem free_counts_frame_being_paged_out:
  "MmFreePhysicalPages (mixed_mm [1, 0x2000, 1] True 0 3 2) 0x1000 2 =
     Inr ((mixed_mm [0, 0x2000, 1] True 2 1 1)\<lparr>MmPhysicalMemoryFreeCount := 2\<rparr>, [], False) \<and>
   MmFreePhysicalPages (mixed_mm [1, 0x2000, 1] True 0 3 2) 0x2000 1 =
     Inr (mixed_mm [1, 0x2000, 1] True 0 3 2, [], False)"
  by (simp add: MmFreePhysicalPages_def free_one_page_def free_update_metrics_def eval_defs
      free_loop_numeral)

lemma select_eval:
  "MmpFindPhysicalPages 4 (mixed_mm [1, 0x2000, 1] False 0 3 2) 1 1 PhysicalMemoryFindPagable
     (\<lambda>va. True) =
   Inr (Some (0, 1, 1), (mixed_mm [1, 0x2000, 1] True 0 3 2)\<lparr>MmLastPagedSegmentOffset := 2\<rparr>)"
  by (simp add: find_defs eval_defs)

lemma free_eval_1:
  "MmFreePhysicalPages ((mixed_mm [1, 0x2000, 1] True 0 3 2)\<lparr>MmLastPagedSegmentOffset := 2\<rparr>) 0x1000 2 =
     Inr ((mixed_mm [0, 0x2000, 1] True 2 1 1)
            \<lparr>MmLastPagedSegmentOffset := 2, MmPhysicalMemoryFreeCount := 2\<rparr>, [], False)"
  by (simp add: MmFreePhysicalPages_def free_one_page_def free_update_metrics_def eval_defs
      free_loop_numeral)

lemma pager_free_eval:
  "MmFreePhysicalPages ((mixed_mm [0, 0x2000, 1] False 2 1 1)
        \<lparr>MmLastPagedSegmentOffset := 2, MmPhysicalMemoryFreeCount := 2\<rparr>) 0x2000 1 =
     Inr ((mixed_mm [0, 0, 1] False 3 0 1)
            \<lparr>MmLastPagedSegmentOffset := 2, MmPhysicalMemoryFreeCount := 3\<rparr>, [0x2000], False)"
  by (simp add: MmFreePhysicalPages_def free_one_page_def free_update_metrics_def eval_defs
      free_loop_numeral)

lemma counters_eval:
  "counters_ok (mixed_mm [1, 0x2000, 1] False 0 3 2)"
  "counters_ok ((mixed_mm [1, 0x2000, 1] True 0 3 2)\<lparr>MmLastPagedSegmentOffset := 2\<rparr>)"
  "\<not> counters_ok ((mixed_mm [0, 0, 1] False 3 0 1)
            \<lparr>MmLastPagedSegmentOffset := 2, MmPhysicalMemoryFreeCount := 3\<rparr>)"
  by (simp_all add: counters_ok_def mixed_mm_def)

text \<open>
  C3. From a database whose counters agree with its records (three allocated frames, two
  of them non-paged): the pager's search selects the pagable frame at \<open>0x2000\<close>,
  setting its "paging out" flag; the owner of the run frees the two frames at \<open>0x1000\<close>
  and \<open>0x2000\<close>, which leaves the second frame to the pager; the pager, its writeback
  done, clears the flag (the one change to the database that is made outside these
  routines) and frees the frame at \<open>0x2000\<close>. Each frame is freed once by whoever owns
  it. The counter invariant holds before the owner's free and fails after the pager's:
  the owner's call has already counted the frame being paged out as freed, so the
  pager's call leaves \<open>allocated = 0\<close> with the non-paged frame at \<open>0x3000\<close> still
  allocated, \<open>non_paged = 1 > allocated\<close>.
\<close>

theorem free_breaks_counter_invariant:
  "counters_ok (mixed_mm [1, 0x2000, 1] False 0 3 2) \<and>
   MmpFindPhysicalPages 4 (mixed_mm [1, 0x2000, 1] False 0 3 2) 1 1 PhysicalMemoryFindPagable
     (\<lambda>va. True) =
     Inr (Some (0, 1, 1), (mixed_mm [1, 0x2000, 1] True 0 3 2)\<lparr>MmLastPagedSegmentOffset := 2\<rparr>) \<and>
   counters_ok ((mixed_mm [1, 0x2000, 1] True 0 3 2)\<lparr>MmLastPagedSegmentOffset := 2\<rparr>) \<and>
   MmFreePhysicalPages ((mixed_mm [1, 0x2000, 1] True 0 3 2)\<lparr>MmLastPagedSegmentOffset := 2\<rparr>)
     0x1000 2 =
     Inr ((mixed_mm [0, 0x2000, 1] True 2 1 1)
            \<lparr>MmLastPagedSegmentOffset := 2, MmPhysicalMemoryFreeCount := 2\<rparr>, [], False) \<and>
   MmFreePhysicalPages ((mixed_mm [0, 0x2000, 1] False 2 1 1)
            \<lparr>MmLastPagedSegmentOffset := 2, MmPhysicalMemoryFreeCount := 2\<rparr>) 0x2000 1 =
     Inr ((mixed_mm [0, 0, 1] False 3 0 1)
            \<lparr>MmLastPagedSegmentOffset := 2, MmPhysicalMemoryFreeCount := 3\<rparr>, [0x2000], False) \<and>
   \<not> counters_ok ((mixed_mm [0, 0, 1] False 3 0 1)
            \<lparr>MmLastPagedSegmentOffset := 2, MmPhysicalMemoryFreeCount := 3\<rparr>)"
  using select_eval free_eval_1 pager_free_eval counters_eval
  by (intro conjI)

subsection \<open>Warning levels\<close>

lemma warning_view_updates [simp]:
  "warning_view (s\<lparr>PagingEntries := h\<rparr>) = warning_view s"
  "warning_view (s\<lparr>MmLastPagedSegment := a\<rparr>) = warning_view s"
  "warning_view (s\<lparr>MmLastPagedSegmentOffset := b\<rparr>) = warning_view s"
  "warning_view (s\<lparr>MmLastAllocatedSegment := a\<rparr>) = warning_view s"
  "warning_view (s\<lparr>MmLastAllocatedSegmentOffset := c\<rparr>) = warning_view s"
  "warning_view (s\<lparr>Segments := gs\<rparr>) = warning_view s"
  "warning_view (s\<lparr>MmTotalAllocatedPhysicalPages := d\<rparr>) = warning_view s"
  "warning_view (s\<lparr>MmNonPagedPhysicalPages := d\<rparr>) = warning_view s"
  by (simp_all add: warning_view_def warning_settings_def)

lemma find_loop_warning_view:
  "find_loop fuel ty vafree pc pa ls fo s seg off fi = Inr (r, s') \<Longrightarrow>
   warning_view s' = warning_view s \<and>
   MmTotalAllocatedPhysicalPages s' = MmTotalAllocatedPhysicalPages s \<and>
   MmTotalPhysicalPages s' = MmTotalPhysicalPages s"
proof (induction fuel arbitrary: s seg off fi ty)
  case 0
  then show ?case by simp
next
  case (Suc fuel)
  show ?case
    using Suc.prems
    apply (simp only: find_loop.simps Let_def split: if_splits sum.splits prod.splits)
    apply (auto dest!: Suc.IH)
    done
qed

lemma allocate_mark_pages_warning_view:
  "allocate_mark_pages each k i n s = Inr s' \<Longrightarrow>
   warning_view s' = warning_view s \<and> MmTotalPhysicalPages s' = MmTotalPhysicalPages s"
proof (induction n arbitrary: i s)
  case 0
  then show ?case by simp
next
  case (Suc n)
  show ?case
    using Suc.prems
    apply (simp only: allocate_mark_pages.simps Let_def split: if_splits)
    apply (auto dest!: Suc.IH)
    done
qed
lemma allocate_check_warning_cases:
  assumes "allocate_check_warning n s2 = (s', sig)"
  shows "warning_settings s' = warning_settings s2"
    and "MmTotalAllocatedPhysicalPages s' = MmTotalAllocatedPhysicalPages s2"
    and "sig \<longleftrightarrow> MmPhysicalMemoryWarningLevel s' \<noteq> MmPhysicalMemoryWarningLevel s2"
    and "\<not> allocate_sampled n s2 \<Longrightarrow> MmPhysicalMemoryWarningLevel s' = MmPhysicalMemoryWarningLevel s2"
    and "allocate_sampled n s2 \<Longrightarrow> MmPhysicalMemoryWarningLevel s2 \<noteq> MemoryWarningLevel1 \<Longrightarrow>
         ucast (MmTotalAllocatedPhysicalPages s2) \<ge> MmPhysicalMemoryWarningLevel1HighPages s2 \<Longrightarrow>
         MmPhysicalMemoryWarningLevel s' = MemoryWarningLevel1"
    and "allocate_sampled n s2 \<Longrightarrow> MmPhysicalMemoryWarningLevel s2 \<noteq> MemoryWarningLevel2 \<Longrightarrow>
         ucast (MmTotalAllocatedPhysicalPages s2) < MmPhysicalMemoryWarningLevel1HighPages s2 \<Longrightarrow>
         ucast (MmTotalAllocatedPhysicalPages s2) \<ge> MmPhysicalMemoryWarningLevel2HighPages s2 \<Longrightarrow>
         MmPhysicalMemoryWarningLevel s' = MemoryWarningLevel2"
    and "ucast (MmTotalAllocatedPhysicalPages s2) < MmPhysicalMemoryWarningLevel1HighPages s2 \<Longrightarrow>
         ucast (MmTotalAllocatedPhysicalPages s2) < MmPhysicalMemoryWarningLevel2HighPages s2 \<Longrightarrow>
         MmPhysicalMemoryWarningLevel s' = MmPhysicalMemoryWarningLevel s2"
  using assms
  by (auto simp: allocate_check_warning_def allocate_sampled_def warning_settings_def Let_def
      split: if_splits)

lemma allocate_pass_split:
  assumes "allocate_pass fuel s n a = Inr (PagesAllocated addr s' sig)"
  obtains s2 where "allocate_check_warning n s2 = (s', sig)"
    and "warning_view s2 = warning_view s"
proof -
  from assms obtain k off found s1 s2 where
    f: "MmpFindPhysicalPages fuel s (ucast n) a PhysicalMemoryFindFree (\<lambda>va. True) =
          Inr (Some (k, off, found), s1)"
    and m: "allocate_mark_pages False k (unat off) (unat n) s1 = Inr s2"
    and c: "allocate_check_warning n s2 = (s', sig)"
    by (auto simp: allocate_pass_def Let_def split: sum.splits option.splits prod.splits if_splits)
  from f have "warning_view s1 = warning_view s"
    by (auto simp: MmpFindPhysicalPages_def Let_def split: if_splits dest: find_loop_warning_view)
  moreover from m have "warning_view s2 = warning_view s1"
    by (auto dest: allocate_mark_pages_warning_view)
  ultimately show ?thesis using c that by simp
qed

lemma free_one_page_warning:
  assumes "free_one_page k i st = Inr st'"
  shows "MmPhysicalMemoryWarningLevel (fl_mm st') \<noteq> MmPhysicalMemoryWarningLevel (fl_mm st) \<longrightarrow>
           \<not> fl_SignalEvent st \<and> fl_ReleasedPhysicalPage st' \<and>
           MmPhysicalMemoryFreeCount (fl_mm st') AND MmPhysicalMemoryWarningCountMask (fl_mm st') = 0 \<and>
           (MmPhysicalMemoryWarningLevel (fl_mm st) = MemoryWarningLevel2 \<and>
            MmPhysicalMemoryWarningLevel (fl_mm st') = MemoryWarningLevelNone \<and>
            ucast (MmTotalAllocatedPhysicalPages (fl_mm st')) <
              MmPhysicalMemoryWarningLevel2LowPages (fl_mm st') \<or>
            MmPhysicalMemoryWarningLevel (fl_mm st) = MemoryWarningLevel1 \<and>
            MmPhysicalMemoryWarningLevel (fl_mm st') = MemoryWarningLevel2 \<and>
            ucast (MmTotalAllocatedPhysicalPages (fl_mm st')) <
              MmPhysicalMemoryWarningLevel1LowPages (fl_mm st'))"
    and "fl_SignalEvent st \<longrightarrow> fl_SignalEvent st'"
    and "\<not> fl_SignalEvent st \<longrightarrow>
           (fl_SignalEvent st' \<longleftrightarrow>
            MmPhysicalMemoryWarningLevel (fl_mm st') \<noteq> MmPhysicalMemoryWarningLevel (fl_mm st))"
  using assms
  by (auto simp: free_one_page_def free_update_metrics_def set_page_def Let_def
      split: if_splits option.splits sum.splits)

lemma free_loop_signal:
  "free_loop k i n st = Inr st' \<Longrightarrow>
   (fl_SignalEvent st \<longrightarrow> fl_SignalEvent st' \<and>
      MmPhysicalMemoryWarningLevel (fl_mm st') = MmPhysicalMemoryWarningLevel (fl_mm st)) \<and>
   (\<not> fl_SignalEvent st \<longrightarrow>
      (fl_SignalEvent st' \<longleftrightarrow>
       MmPhysicalMemoryWarningLevel (fl_mm st') \<noteq> MmPhysicalMemoryWarningLevel (fl_mm st)))"
proof (induction n arbitrary: i st)
  case 0
  then show ?case by simp
next
  case (Suc n)
  from Suc.prems obtain st1 where one: "free_one_page k i st = Inr st1"
    and rest: "free_loop k (Suc i) n st1 = Inr st'"
    by (auto split: sum.splits)
  note w = free_one_page_warning [OF one]
  note ih = Suc.IH [OF rest]
  show ?case
  proof (cases "fl_SignalEvent st")
    case True
    with w have "fl_SignalEvent st1"
      "MmPhysicalMemoryWarningLevel (fl_mm st1) = MmPhysicalMemoryWarningLevel (fl_mm st)"
      by auto
    with ih True show ?thesis by simp
  next
    case False
    show ?thesis
    proof (cases "fl_SignalEvent st1")
      case True
      with w(3) False have
        "MmPhysicalMemoryWarningLevel (fl_mm st1) \<noteq> MmPhysicalMemoryWarningLevel (fl_mm st)"
        by simp
      with ih True False show ?thesis by simp
    next
      case nosig: False
      with w(3) False have
        "MmPhysicalMemoryWarningLevel (fl_mm st1) = MmPhysicalMemoryWarningLevel (fl_mm st)"
        by simp
      with ih nosig False show ?thesis by simp
    qed
  qed
qed

lemma replicate_fill:
  "0 < b \<Longrightarrow> (replicate a x @ replicate b y)[a := x] = replicate (Suc a) x @ replicate (b - 1) y"
  by (cases b) (simp_all add: list_update_append replicate_append_same)

lemma allocate_eval_1:
  "MmpAllocatePhysicalPages 2 freq [] (warn_mm 193 MemoryWarningLevelNone 0 0) 1 0x1000 =
     Inr (Some (0x1C1000, warn_mm 194 MemoryWarningLevel1 1 0, True), [])"
  by (simp add: MmpAllocatePhysicalPages_def allocate_pass_def allocate_check_warning_def
      find_defs eval_defs warn_mm_def replicate_fill)

lemma allocate_eval_2:
  "MmpAllocatePhysicalPages 2 freq [] (warn_mm 194 MemoryWarningLevel1 1 0) 1 0x1000 =
     Inr (Some (0x1C2000, warn_mm 195 MemoryWarningLevel2 2 0, True), [])"
  by (simp add: MmpAllocatePhysicalPages_def allocate_pass_def allocate_check_warning_def
      find_defs eval_defs warn_mm_def replicate_fill)

lemma allocate_eval_3:
  "MmpAllocatePhysicalPages 2 freq [] (warn_mm 195 MemoryWarningLevel2 2 0) 1 0x1000 =
     Inr (Some (0x1C3000, warn_mm 196 MemoryWarningLevel1 3 0, True), [])"
  by (simp add: MmpAllocatePhysicalPages_def allocate_pass_def allocate_check_warning_def
      find_defs eval_defs warn_mm_def replicate_fill)

text \<open>
  What the two routines do to the warning level. A pass of \<open>MmpAllocatePhysicalPages\<close>
  that takes pages signals the warning event exactly when it changed the level; it
  leaves the level alone unless the incremented allocation counter has no mask bit set or
  the page count is at least the mask; when it looks, a level other than 1 with the
  allocated count at or above the level 1 high threshold becomes level 1, and a level
  other than 2 with the count below the level 1 high threshold and at or above the level 2
  high threshold becomes level 2; below both high thresholds the level stays. In
  \<open>MmFreePhysicalPages\<close> the level changes only at a frame where the local
  \<open>ReleasedPhysicalPage\<close> is set (by this frame or by an earlier one of the call), with
  no transition recorded yet in this call and the free counter free of mask bits, and only
  from 2 to none with the allocated count below the level 2 low threshold or from 1 to 2
  with the count below the level 1 low threshold; the call signals the event exactly when
  it changed the level. Nothing here covers an allocation at level 1 with the count at or
  above the level 1 high threshold: that is the case of the theorem that follows.
\<close>

lemma warning_level_steps:
  "(allocate_pass fuel s n a = Inr (PagesAllocated addr s' sig) \<longrightarrow>
      (sig \<longleftrightarrow> MmPhysicalMemoryWarningLevel s' \<noteq> MmPhysicalMemoryWarningLevel s) \<and>
      (\<not> allocate_sampled n s \<longrightarrow>
         MmPhysicalMemoryWarningLevel s' = MmPhysicalMemoryWarningLevel s) \<and>
      (allocate_sampled n s \<and> MmPhysicalMemoryWarningLevel s \<noteq> MemoryWarningLevel1 \<and>
       MmPhysicalMemoryWarningLevel1HighPages s \<le> ucast (MmTotalAllocatedPhysicalPages s') \<longrightarrow>
         MmPhysicalMemoryWarningLevel s' = MemoryWarningLevel1) \<and>
      (allocate_sampled n s \<and> MmPhysicalMemoryWarningLevel s \<noteq> MemoryWarningLevel2 \<and>
       ucast (MmTotalAllocatedPhysicalPages s') < MmPhysicalMemoryWarningLevel1HighPages s \<and>
       MmPhysicalMemoryWarningLevel2HighPages s \<le> ucast (MmTotalAllocatedPhysicalPages s') \<longrightarrow>
         MmPhysicalMemoryWarningLevel s' = MemoryWarningLevel2) \<and>
      (ucast (MmTotalAllocatedPhysicalPages s') < MmPhysicalMemoryWarningLevel1HighPages s \<and>
       ucast (MmTotalAllocatedPhysicalPages s') < MmPhysicalMemoryWarningLevel2HighPages s \<longrightarrow>
         MmPhysicalMemoryWarningLevel s' = MmPhysicalMemoryWarningLevel s))
   \<and> (free_one_page k i st = Inr st' \<longrightarrow>
        MmPhysicalMemoryWarningLevel (fl_mm st') \<noteq> MmPhysicalMemoryWarningLevel (fl_mm st) \<longrightarrow>
           \<not> fl_SignalEvent st \<and> fl_ReleasedPhysicalPage st' \<and>
           MmPhysicalMemoryFreeCount (fl_mm st') AND MmPhysicalMemoryWarningCountMask (fl_mm st') = 0 \<and>
           (MmPhysicalMemoryWarningLevel (fl_mm st) = MemoryWarningLevel2 \<and>
            MmPhysicalMemoryWarningLevel (fl_mm st') = MemoryWarningLevelNone \<and>
            ucast (MmTotalAllocatedPhysicalPages (fl_mm st')) <
              MmPhysicalMemoryWarningLevel2LowPages (fl_mm st') \<or>
            MmPhysicalMemoryWarningLevel (fl_mm st) = MemoryWarningLevel1 \<and>
            MmPhysicalMemoryWarningLevel (fl_mm st') = MemoryWarningLevel2 \<and>
            ucast (MmTotalAllocatedPhysicalPages (fl_mm st')) <
              MmPhysicalMemoryWarningLevel1LowPages (fl_mm st')))
   \<and> (MmFreePhysicalPages t pa m = Inr (t', q, sig') \<longrightarrow>
        (sig' \<longleftrightarrow> MmPhysicalMemoryWarningLevel t' \<noteq> MmPhysicalMemoryWarningLevel t))"
proof (intro conjI impI)
  assume pass: "allocate_pass fuel s n a = Inr (PagesAllocated addr s' sig)"
  then obtain s2 where c: "allocate_check_warning n s2 = (s', sig)"
    and v: "warning_view s2 = warning_view s"
    by (rule allocate_pass_split)
  note cs = allocate_check_warning_cases [OF c]
  from v have lv: "MmPhysicalMemoryWarningLevel s2 = MmPhysicalMemoryWarningLevel s"
    and st: "warning_settings s2 = warning_settings s"
    and ac: "MmPhysicalMemoryAllocationCount s2 = MmPhysicalMemoryAllocationCount s"
    by (simp_all add: warning_view_def)
  from st ac have sm: "allocate_sampled n s2 = allocate_sampled n s"
    by (simp add: allocate_sampled_def warning_settings_def)
  from st have th: "MmPhysicalMemoryWarningLevel1HighPages s2 = MmPhysicalMemoryWarningLevel1HighPages s"
    "MmPhysicalMemoryWarningLevel2HighPages s2 = MmPhysicalMemoryWarningLevel2HighPages s"
    by (simp_all add: warning_settings_def)
  show "sig \<longleftrightarrow> MmPhysicalMemoryWarningLevel s' \<noteq> MmPhysicalMemoryWarningLevel s"
    using cs(3) lv by simp
  show "MmPhysicalMemoryWarningLevel s' = MmPhysicalMemoryWarningLevel s"
    if "\<not> allocate_sampled n s"
    using cs(4) that sm lv by simp
  show "MmPhysicalMemoryWarningLevel s' = MemoryWarningLevel1"
    if "allocate_sampled n s \<and> MmPhysicalMemoryWarningLevel s \<noteq> MemoryWarningLevel1 \<and>
       MmPhysicalMemoryWarningLevel1HighPages s \<le> ucast (MmTotalAllocatedPhysicalPages s')"
    using cs(5) cs(2) that sm lv th by simp
  show "MmPhysicalMemoryWarningLevel s' = MemoryWarningLevel2"
    if "allocate_sampled n s \<and> MmPhysicalMemoryWarningLevel s \<noteq> MemoryWarningLevel2 \<and>
       ucast (MmTotalAllocatedPhysicalPages s') < MmPhysicalMemoryWarningLevel1HighPages s \<and>
       MmPhysicalMemoryWarningLevel2HighPages s \<le> ucast (MmTotalAllocatedPhysicalPages s')"
    using cs(6) cs(2) that sm lv th by simp
  show "MmPhysicalMemoryWarningLevel s' = MmPhysicalMemoryWarningLevel s"
    if "ucast (MmTotalAllocatedPhysicalPages s') < MmPhysicalMemoryWarningLevel1HighPages s \<and>
       ucast (MmTotalAllocatedPhysicalPages s') < MmPhysicalMemoryWarningLevel2HighPages s"
    using cs(7) cs(2) that lv th by simp
next
  assume "free_one_page k i st = Inr st'"
    and "MmPhysicalMemoryWarningLevel (fl_mm st') \<noteq> MmPhysicalMemoryWarningLevel (fl_mm st)"
  with free_one_page_warning(1) [of k i st st']
  show "\<not> fl_SignalEvent st" "fl_ReleasedPhysicalPage st'"
    "MmPhysicalMemoryFreeCount (fl_mm st') AND MmPhysicalMemoryWarningCountMask (fl_mm st') = 0"
    "MmPhysicalMemoryWarningLevel (fl_mm st) = MemoryWarningLevel2 \<and>
            MmPhysicalMemoryWarningLevel (fl_mm st') = MemoryWarningLevelNone \<and>
            ucast (MmTotalAllocatedPhysicalPages (fl_mm st')) <
              MmPhysicalMemoryWarningLevel2LowPages (fl_mm st') \<or>
            MmPhysicalMemoryWarningLevel (fl_mm st) = MemoryWarningLevel1 \<and>
            MmPhysicalMemoryWarningLevel (fl_mm st') = MemoryWarningLevel2 \<and>
            ucast (MmTotalAllocatedPhysicalPages (fl_mm st')) <
              MmPhysicalMemoryWarningLevel1LowPages (fl_mm st')"
    by blast+
next
  assume "MmFreePhysicalPages t pa m = Inr (t', q, sig')"
  then obtain k off stf where "free_loop k off (unat m)
          \<lparr>fl_mm = t, fl_ReleasedPhysicalPage = False, fl_SignalEvent = False,
           fl_PagingEntryList = []\<rparr> = Inr stf"
    and "t' = fl_mm stf" "sig' = fl_SignalEvent stf"
    by (auto simp: MmFreePhysicalPages_def Let_def split: option.splits if_splits sum.splits)
  with free_loop_signal [of k off "unat m" _ stf]
  show "sig' \<longleftrightarrow> MmPhysicalMemoryWarningLevel t' \<noteq> MmPhysicalMemoryWarningLevel t"
    by simp
qed

text \<open>
  C4. Three one-page allocations in a row take the allocated count from 193 to 196 of 200
  pages, with the thresholds 194 and 190 for level 1 and 180 and 174 for level 2. The first
  reaches the level 1 high threshold: the level goes from none to 1 and the event is
  signalled. The second, at level 1 with the count still at or above the level 1 high
  threshold, falls through to the test of level 2, whose condition is only that the level
  is not 2 and the count is at or above the level 2 high threshold: the level goes from 1
  to 2 and the event is signalled again, although the count never went below the level 1
  low threshold. The third puts the level back to 1 and signals once more. Under memory
  pressure the level alternates between 1 and 2 with every sampled allocation.
\<close>

theorem allocate_alternates_warning_levels:
  "MmpAllocatePhysicalPages 2 1000 [] (warn_mm 193 MemoryWarningLevelNone 0 0) 1 0x1000 =
     Inr (Some (0x1C1000, warn_mm 194 MemoryWarningLevel1 1 0, True), []) \<and>
   MmpAllocatePhysicalPages 2 1000 [] (warn_mm 194 MemoryWarningLevel1 1 0) 1 0x1000 =
     Inr (Some (0x1C2000, warn_mm 195 MemoryWarningLevel2 2 0, True), []) \<and>
   MmpAllocatePhysicalPages 2 1000 [] (warn_mm 195 MemoryWarningLevel2 2 0) 1 0x1000 =
     Inr (Some (0x1C3000, warn_mm 196 MemoryWarningLevel1 3 0, True), []) \<and>
   MmPhysicalMemoryWarningLevel1LowPages (warn_mm 194 MemoryWarningLevel1 1 0) = 190 \<and>
   MmPhysicalMemoryWarningLevel1HighPages (warn_mm 194 MemoryWarningLevel1 1 0) = 194"
  using allocate_eval_1 [of 1000] allocate_eval_2 [of 1000] allocate_eval_3 [of 1000]
  by (simp add: warn_mm_def)

text \<open>
  C5. With all 200 frames allocated and a minimum free count of 10, a request for 10 pages
  aligned to 64 KiB (16 pages) finds no run, and the target passed to
  \<open>MmRequestPagingOut\<close> is 10, not \<open>max 10 (10 + 16) = 26\<close>: \<open>Alignment\<close> was
  converted to pages on entry, and is shifted right by the page shift a second time where
  the target is computed.
\<close>

theorem page_out_target_shifts_alignment_twice:
  "MmpAllocatePhysicalPages 4 1000 [] (warn_mm 200 MemoryWarningLevel1 0 0) 10 0x10000 =
     Inr (None, [10])"
  by (simp add: MmpAllocatePhysicalPages_def allocate_pass_def find_defs eval_defs warn_mm_def)

subsection \<open>The failure count of a page-out pass\<close>

lemma page_out_select_failure_count:
  "page_out_select fuel s l = Inr (r, s1, l1) \<Longrightarrow> po_FailureCount l1 = po_FailureCount l"
  by (auto simp: page_out_select_def Let_def split: if_splits sum.splits option.splits prod.splits)

lemma page_out_account_cases:
  assumes "page_out_account Status PagesPaged l = (brk, l')"
  shows "Status = STATUS_SUCCESS \<or> Status = STATUS_RESOURCE_IN_USE \<Longrightarrow>
           po_FailureCount l' = po_FailureCount l \<and> \<not> brk"
    and "Status \<noteq> STATUS_SUCCESS \<Longrightarrow> Status \<noteq> STATUS_RESOURCE_IN_USE \<Longrightarrow>
           po_FailureCount l' = po_FailureCount l + 1 \<and>
           (brk \<longleftrightarrow> po_FailureCount l' \<ge> PHYSICAL_MEMORY_MAX_PAGE_OUT_FAILURE_COUNT)"
  using assms
  by (auto simp: page_out_account_def Let_def split: if_splits)
lemma consumed_append [simp]: "consumed (used @ rest) rest = used"
  by (simp add: consumed_def)

lemma page_out_loop_failures:
  assumes "page_out_loop fuel env s l = Inr (ended, s', l', rest)"
    and "unat (po_FailureCount l) < 10"
  shows "\<exists>used. env = used @ rest \<and>
          unat (po_FailureCount l') = unat (po_FailureCount l) + length (filter counted_failure used) \<and>
          (ended = Some TooManyFailures \<longrightarrow>
             used \<noteq> [] \<and> counted_failure (last used) \<and> unat (po_FailureCount l') = 10) \<and>
          (ended \<noteq> Some TooManyFailures \<longrightarrow> unat (po_FailureCount l') < 10)"
  using assms
proof (induction env arbitrary: s l)
  case Nil
  from Nil.prems(1) obtain r s1 l1 where sel: "page_out_select fuel s l = Inr (r, s1, l1)"
    by (auto split: sum.splits)
  have fc: "po_FailureCount l1 = po_FailureCount l"
    using sel by (rule page_out_select_failure_count)
  from Nil.prems(1) sel have "rest = []" "l' = l1" "ended \<noteq> Some TooManyFailures"
    by (auto simp: page_out_select_def Let_def split: sum.splits if_splits option.splits prod.splits)
  with fc Nil.prems(2) show ?case by simp
next
  case (Cons ret env)
  obtain Status PagesPaged s2 where ret: "ret = (Status, PagesPaged, s2)"
    by (cases ret) auto
  from Cons.prems(1) obtain r s1 l1 where sel: "page_out_select fuel s l = Inr (r, s1, l1)"
    unfolding ret by (auto split: sum.splits)
  have fc: "po_FailureCount l1 = po_FailureCount l"
    using sel by (rule page_out_select_failure_count)
  show ?case
  proof (cases r)
    case (Inl e)
    with Cons.prems(1) sel ret have "rest = ret # env" "l' = l1" "ended = Some e"
      by auto
    moreover from sel Inl have "e \<noteq> TooManyFailures"
      by (auto simp: page_out_select_def Let_def split: sum.splits if_splits option.splits prod.splits)
    ultimately show ?thesis using fc Cons.prems(2) by simp
  next
    case (Inr args)
    obtain brk l2 where acc: "page_out_account Status PagesPaged l1 = (brk, l2)"
      by (cases "page_out_account Status PagesPaged l1") auto
    show ?thesis
    proof (cases "counted_failure ret")
      case True
      with ret have st: "Status \<noteq> STATUS_SUCCESS" "Status \<noteq> STATUS_RESOURCE_IN_USE"
        by (simp_all add: counted_failure_def)
      from page_out_account_cases(2) [OF acc st] fc
      have f2: "po_FailureCount l2 = po_FailureCount l + 1"
        and b: "brk \<longleftrightarrow> po_FailureCount l2 \<ge> PHYSICAL_MEMORY_MAX_PAGE_OUT_FAILURE_COUNT"
        by simp_all
      have u2: "unat (po_FailureCount l2) = unat (po_FailureCount l) + 1"
        unfolding f2 using Cons.prems(2)
        by (simp add: unat_word_ariths)
      show ?thesis
      proof (cases brk)
        case brk: True
        with Cons.prems(1) sel Inr ret acc have "rest = env" "l' = l2" "ended = Some TooManyFailures"
          by auto
        moreover from brk b u2 Cons.prems(2) have "unat (po_FailureCount l2) = 10"
          by (simp add: PHYSICAL_MEMORY_MAX_PAGE_OUT_FAILURE_COUNT_def word_le_nat_alt)
        ultimately show ?thesis
          using True u2 by (intro exI [of _ "[ret]"]) simp
      next
        case nobrk: False
        with Cons.prems(1) sel Inr ret acc have rec: "page_out_loop fuel env s2 l2 = Inr (ended, s', l', rest)"
          by auto
        from nobrk b u2 have lt: "unat (po_FailureCount l2) < 10"
          by (simp add: PHYSICAL_MEMORY_MAX_PAGE_OUT_FAILURE_COUNT_def word_le_nat_alt)
        from Cons.IH [OF rec lt] obtain used where
          u: "env = used @ rest"
          "unat (po_FailureCount l') = unat (po_FailureCount l2) + length (filter counted_failure used)"
          "ended = Some TooManyFailures \<longrightarrow>
             used \<noteq> [] \<and> counted_failure (last used) \<and> unat (po_FailureCount l') = 10"
          "ended \<noteq> Some TooManyFailures \<longrightarrow> unat (po_FailureCount l') < 10"
          by blast
        show ?thesis
          using u True u2 by (intro exI [of _ "ret # used"]) auto
      qed
    next
      case False
      with ret have st: "Status = STATUS_SUCCESS \<or> Status = STATUS_RESOURCE_IN_USE"
        by (auto simp: counted_failure_def)
      from page_out_account_cases(1) [OF acc st] fc
      have f2: "po_FailureCount l2 = po_FailureCount l" and nobrk: "\<not> brk"
        by simp_all
      with Cons.prems(1) sel Inr ret acc have rec: "page_out_loop fuel env s2 l2 = Inr (ended, s', l', rest)"
        by auto
      from f2 Cons.prems(2) have lt: "unat (po_FailureCount l2) < 10" by simp
      from Cons.IH [OF rec lt] obtain used where
        u: "env = used @ rest"
        "unat (po_FailureCount l') = unat (po_FailureCount l2) + length (filter counted_failure used)"
        "ended = Some TooManyFailures \<longrightarrow>
           used \<noteq> [] \<and> counted_failure (last used) \<and> unat (po_FailureCount l') = 10"
        "ended \<noteq> Some TooManyFailures \<longrightarrow> unat (po_FailureCount l') < 10"
        by blast
      show ?thesis
        using u False f2 by (intro exI [of _ "ret # used"]) auto
    qed
  qed
qed
lemma page_out_eval:
  "MmpPageOutPhysicalPages 4 (pager_returns @ [(STATUS_NO_MEMORY, 0, pager_mm True)])
     (pager_mm False) 2 =
   Inr (Some TooManyFailures, pager_mm True,
        \<lparr>po_FreePagesTarget = 2, po_FailureCount = 10, po_PageCountSinceEvent = 1,
         po_TotalPagesPaged = 1, po_Signals = 1\<rparr>,
        [(STATUS_NO_MEMORY, 0, pager_mm True)])"
  by (simp add: MmpPageOutPhysicalPages_def pager_returns_def page_out_select_def
      page_out_account_def find_defs eval_defs pager_mm_def
      PHYSICAL_MEMORY_MAX_PAGE_OUT_FAILURE_COUNT_def PAGING_EVENT_SIGNAL_PAGE_COUNT_def)

lemma pager_returns_runs:
  "longest_failure_run pager_returns = 9"
  "length (filter counted_failure pager_returns) = 10"
  by (simp_all add: longest_failure_run_def pager_returns_def counted_failure_def)

text \<open>
  C8 as the code has it. When a pass of \<open>MmpPageOutPhysicalPages\<close> has ended, its
  failure count is the number of returns of \<open>MmpPageOut\<close> it consumed whose status is
  neither success nor "resource in use"; that number never exceeds 10; the pass ended on
  the failure count exactly when the number is 10, and then the last return consumed is
  such a failure. So a "resource in use" return neither counts nor ends the pass, and a
  success does not take anything off the count.
\<close>

theorem page_out_failure_count:
  assumes "MmpPageOutPhysicalPages fuel env s target = Inr (ended, s', l', rest)"
  shows "env = consumed env rest @ rest \<and>
         unat (po_FailureCount l') = length (filter counted_failure (consumed env rest)) \<and>
         length (filter counted_failure (consumed env rest)) \<le> 10 \<and>
         (ended = Some TooManyFailures \<longleftrightarrow>
            length (filter counted_failure (consumed env rest)) = 10) \<and>
         (ended = Some TooManyFailures \<longrightarrow>
            consumed env rest \<noteq> [] \<and> counted_failure (last (consumed env rest)))"
proof -
  from assms obtain l1 where
    loop: "page_out_loop fuel env s
             \<lparr>po_FreePagesTarget = target, po_FailureCount = 0,
              po_PageCountSinceEvent = 0, po_TotalPagesPaged = 0, po_Signals = 0\<rparr> =
           Inr (ended, s', l1, rest)"
    and fc: "po_FailureCount l' = po_FailureCount l1"
    by (auto simp: MmpPageOutPhysicalPages_def split: sum.splits option.splits if_splits)
  from page_out_loop_failures [OF loop] obtain used where
    u: "env = used @ rest"
    "unat (po_FailureCount l1) = length (filter counted_failure used)"
    "ended = Some TooManyFailures \<longrightarrow>
       used \<noteq> [] \<and> counted_failure (last used) \<and> unat (po_FailureCount l1) = 10"
    "ended \<noteq> Some TooManyFailures \<longrightarrow> unat (po_FailureCount l1) < 10"
    by auto
  from u(1) have c: "consumed env rest = used" by simp
  show ?thesis
    unfolding c using u fc by auto
qed

theorem page_out_failure_count_witness:
  "MmpPageOutPhysicalPages 4 (pager_returns @ [(STATUS_NO_MEMORY, 0, pager_mm True)])
     (pager_mm False) 2 =
   Inr (Some TooManyFailures, pager_mm True,
        \<lparr>po_FreePagesTarget = 2, po_FailureCount = 10, po_PageCountSinceEvent = 1,
         po_TotalPagesPaged = 1, po_Signals = 1\<rparr>,
        [(STATUS_NO_MEMORY, 0, pager_mm True)]) \<and>
   consumed (pager_returns @ [(STATUS_NO_MEMORY, 0, pager_mm True)])
     [(STATUS_NO_MEMORY, 0, pager_mm True)] = pager_returns \<and>
   length (filter counted_failure pager_returns) = 10 \<and>
   counted_failure (last pager_returns)"
  using page_out_failure_count [OF page_out_eval] page_out_eval pager_returns_runs(2)
  by simp

text \<open>
  C8 as stated fails on nine failures, a success and one more failure: the pass ends on
  the failure count after these eleven returns (leaving the twelfth unconsumed), although
  no more than nine failures were consecutive. The success did not reset the count.
\<close>

theorem page_out_counterexample:
  "MmpPageOutPhysicalPages 4 (pager_returns @ [(STATUS_NO_MEMORY, 0, pager_mm True)])
     (pager_mm False) 2 =
   Inr (Some TooManyFailures, pager_mm True,
        \<lparr>po_FreePagesTarget = 2, po_FailureCount = 10, po_PageCountSinceEvent = 1,
         po_TotalPagesPaged = 1, po_Signals = 1\<rparr>,
        [(STATUS_NO_MEMORY, 0, pager_mm True)]) \<and>
   longest_failure_run pager_returns = 9"
  using page_out_eval pager_returns_runs(1) by simp

subsection \<open>Initialization\<close>

lemma fill_segment_step:
  "fill_segment True n
     (g\<lparr>FreePages := FreePages g + 1, Pages := Pages g @ [PHYSICAL_PAGE_FREE],
        EndAddress := EndAddress g + PAGE_SIZE\<rparr>) = fill_segment True (Suc n) g"
  "fill_segment False n
     (g\<lparr>Pages := Pages g @ [PHYSICAL_PAGE_FLAG_NON_PAGED],
        EndAddress := EndAddress g + PAGE_SIZE\<rparr>) = fill_segment False (Suc n) g"
  by (simp_all add: fill_segment_def replicate_app_Cons_same algebra_simps)

lemma unat_succ: "unat (x::'a::len word) + 1 \<le> unat (y::'a word) \<Longrightarrow> unat (x + 1) = unat x + 1"
proof -
  assume "unat x + 1 \<le> unat y"
  moreover have "unat y < 2 ^ LENGTH('a)" by (rule unsigned_less)
  ultimately have "unat x + unat (1::'a word) < 2 ^ LENGTH('a)" by (simp del: unsigned_less)
  then have "unat (x + 1) = unat x + unat (1::'a word)" by (simp only: unat_add_lem)
  then show ?thesis by simp
qed

lemma add_one_of_nat: "(x::'a::len word) + 1 + of_nat n = x + of_nat (Suc n)"
  by simp

lemma unat_ucast_up: "unat (ucast (w::uintn) :: ulonglong) = unat w"
proof -
  have "unat w < 2 ^ 32" using unsigned_less [of w, where 'a = nat] by simp
  then have "unat w < 2 ^ 64" by simp
  then show ?thesis
    by (simp add: unsigned_ucast_eq take_bit_nat_eq_self_iff)
qed

lemma init_pages_free:
  "SegmentList st \<noteq> [] \<Longrightarrow> unat (PagesInitialized st) + n \<le> unat (TotalMemoryPages st) \<Longrightarrow>
   init_pages True n st =
     Inr (st\<lparr>SegmentList := butlast (SegmentList st) @ [fill_segment True n (last (SegmentList st))],
             PagesInitialized := PagesInitialized st + of_nat n\<rparr>)"
proof (induction n arbitrary: st)
  case 0
  then show ?case by (simp add: fill_segment_def)
next
  case (Suc n)
  let ?g = "last (SegmentList st)"
  let ?g1 = "?g\<lparr>FreePages := FreePages ?g + 1, Pages := Pages ?g @ [PHYSICAL_PAGE_FREE],
                 EndAddress := EndAddress ?g + PAGE_SIZE\<rparr>"
  let ?st1 = "st\<lparr>SegmentList := butlast (SegmentList st) @ [?g1],
                  PagesInitialized := PagesInitialized st + 1\<rparr>"
  from Suc.prems have lt: "PagesInitialized st < TotalMemoryPages st"
    by (simp add: word_less_nat_alt)
  have u: "unat (PagesInitialized st + 1) = unat (PagesInitialized st) + 1"
    using Suc.prems(2) by (intro unat_succ [of _ "TotalMemoryPages st"]) simp
  have step: "init_pages True (Suc n) st = init_pages True n ?st1"
    using lt Suc.prems(1) by (simp add: Let_def)
  have "init_pages True n ?st1 =
     Inr (?st1\<lparr>SegmentList := butlast (SegmentList ?st1) @ [fill_segment True n (last (SegmentList ?st1))],
             PagesInitialized := PagesInitialized ?st1 + of_nat n\<rparr>)"
    using Suc.prems u by (intro Suc.IH) simp_all
  then show ?case
    unfolding step by (simp add: fill_segment_step add_one_of_nat del: of_nat_Suc)
qed

lemma init_pages_used:
  "SegmentList st \<noteq> [] \<Longrightarrow> unat (PagesInitialized st) + n \<le> unat (TotalMemoryPages st) \<Longrightarrow>
   unat (AllocatedPages st) + n \<le> unat (TotalMemoryPages st) \<Longrightarrow>
   unat (AllocatedPages st) + n < 2 ^ 32 \<Longrightarrow>
   init_pages False n st =
     Inr (st\<lparr>SegmentList := butlast (SegmentList st) @ [fill_segment False n (last (SegmentList st))],
             PagesInitialized := PagesInitialized st + of_nat n,
             AllocatedPages := AllocatedPages st + of_nat n,
             NonPagedPages := NonPagedPages st + of_nat n\<rparr>)"
proof (induction n arbitrary: st)
  case 0
  then show ?case by (simp add: fill_segment_def)
next
  case (Suc n)
  let ?g = "last (SegmentList st)"
  let ?g1 = "?g\<lparr>Pages := Pages ?g @ [PHYSICAL_PAGE_FLAG_NON_PAGED],
                 EndAddress := EndAddress ?g + PAGE_SIZE\<rparr>"
  let ?st1 = "st\<lparr>AllocatedPages := AllocatedPages st + 1, NonPagedPages := NonPagedPages st + 1,
                  SegmentList := butlast (SegmentList st) @ [?g1],
                  PagesInitialized := PagesInitialized st + 1\<rparr>"
  from Suc.prems have lt: "PagesInitialized st < TotalMemoryPages st"
    by (simp add: word_less_nat_alt)
  have u: "unat (PagesInitialized st + 1) = unat (PagesInitialized st) + 1"
    using Suc.prems(2) by (intro unat_succ [of _ "TotalMemoryPages st"]) simp
  have ua: "unat (AllocatedPages st + 1) = unat (AllocatedPages st) + 1"
    using Suc.prems(4) by (simp add: unat_word_ariths)
  have as: "(ucast (AllocatedPages st + 1) :: ulonglong) \<le> TotalMemoryPages st"
    using Suc.prems(3) ua by (simp add: word_le_nat_alt unat_ucast_up)
  have step: "init_pages False (Suc n) st = init_pages False n ?st1"
    using lt Suc.prems(1) as by (simp add: Let_def)
  have "init_pages False n ?st1 =
     Inr (?st1\<lparr>SegmentList := butlast (SegmentList ?st1) @ [fill_segment False n (last (SegmentList ?st1))],
             PagesInitialized := PagesInitialized ?st1 + of_nat n,
             AllocatedPages := AllocatedPages ?st1 + of_nat n,
             NonPagedPages := NonPagedPages ?st1 + of_nat n\<rparr>)"
    using Suc.prems u ua by (intro Suc.IH) simp_all
  then show ?case
    unfolding step by (simp add: fill_segment_step add_one_of_nat del: of_nat_Suc)
qed

lemmas last_set_below_numeral =
  last_set_below.simps(2) [where n = "pred_numeral v", folded numeral_eq_Suc] for v

lemma find_last_set_eval: "RtlFindLastSet 163 = 8"
  by (simp add: RtlFindLastSet_def last_set_below_numeral)

lemmas init_defs = MmpInitializePhysicalPageAllocator_def init_iteration_def
  IS_PHYSICAL_MEMORY_TYPE_def boot_free_type_def default_settings_def
  init_pages_free init_pages_used fill_segment_def find_last_set_eval
  PAGE_SHIFT_def PAGE_SIZE_def PHYSICAL_PAGE_FLAG_NON_PAGED_def PHYSICAL_PAGE_FREE_def Let_def
  word_le_nat_alt word_less_nat_alt

lemma e1_eval:
  "MmpInitializePhysicalPageAllocator boot_free_type early_allocate default_settings
     [\<lparr>BaseAddress = 0, Size = 0x1000, Type = MemoryTypeReserved\<rparr>,
      \<lparr>BaseAddress = 0x1000, Size = 0x3FFF000, Type = MemoryTypeFree\<rparr>] =
   Inr (Inr (booted_mm, False))"
  by (simp add: init_defs booted_mm_def)

lemma zero_eval:
  "MmpInitializePhysicalPageAllocator boot_free_type early_allocate default_settings
     [\<lparr>BaseAddress = 0, Size = 0x4000000, Type = MemoryTypeFree\<rparr>] =
   Inr (Inr (booted_mm, True))"
  by (simp add: init_defs booted_mm_def)

lemma booted_mm_facts:
  "physical_page booted_mm 0 = None"
  "map (\<lambda>g. (StartAddress g, EndAddress g)) (Segments booted_mm) = [(0x1000, 0x4000000)]"
  "MmTotalPhysicalPages booted_mm = 16383"
  "MmTotalAllocatedPhysicalPages booted_mm = 17"
  by (simp_all add: booted_mm_def physical_page_def word_le_nat_alt)

lemma first_walk_eval:
  "init_iteration boot_free_type default_settings
     \<lparr>BaseAddress = 0, Size = 0x4000000, Type = MemoryTypeFree\<rparr>
     \<lparr>TotalMemoryBytes = 0, TotalSegments = 0, LastEnd = 0, CurrentPage = False,
      PagesInitialized = 0, TotalMemoryPages = 0, SegmentList = [],
      AllocatedPages = 0, NonPagedPages = 0, MmPhysicalPageZeroAllocated = False\<rparr> =
   Inr (\<lparr>BaseAddress = 0x1000, Size = 0x3FFF000, Type = MemoryTypeFree\<rparr>,
        \<lparr>TotalMemoryBytes = 0x3FFF000, TotalSegments = 1, LastEnd = 0x4000000, CurrentPage = False,
         PagesInitialized = 0, TotalMemoryPages = 0, SegmentList = [],
         AllocatedPages = 0, NonPagedPages = 0, MmPhysicalPageZeroAllocated = True\<rparr>)"
  by (simp add: init_defs)

text \<open>
  C9 as the code has it. On the first walk of the memory map (lowest physical page 0), a
  free descriptor of physical memory that starts at address 0 is truncated: the page zero
  flag is set, the descriptor afterwards starts at the second page and is one page
  shorter, only the remaining bytes are added to the byte total, and neither the allocated
  count nor the segment list changes. So frame 0 gets no record and is in no total.
  After initializing from the map [0..4 KiB reserved][4 KiB..64 MiB free] (with a bootstrap
  allocator that bites its pages off the front of the free descriptor) the database is
  \<open>booted_mm\<close>: one segment spanning 4 KiB..64 MiB, 16383 pages in total, and at least
  one page allocated (the 17 pages of the database itself).
\<close>

theorem page_zero_truncated:
  "(init_iteration free_type cfg d st = Inr (d', st') \<and> IS_PHYSICAL_MEMORY_TYPE (Type d) \<and>
    free_type (Type d) \<and> BaseAddress d = 0 \<and> MmLowestPhysicalPage cfg = 0 \<and>
    \<not> CurrentPage st \<and> TotalMemoryPages st = 0 \<longrightarrow>
      MmPhysicalPageZeroAllocated st' \<and> BaseAddress d' = PAGE_SIZE \<and>
      Size d' = (if MmMaximumPhysicalAddress cfg \<noteq> 0 \<and> Size d > MmMaximumPhysicalAddress cfg
                 then MmMaximumPhysicalAddress cfg else Size d) - PAGE_SIZE \<and>
      TotalMemoryBytes st' = TotalMemoryBytes st + Size d' \<and>
      AllocatedPages st' = AllocatedPages st \<and> SegmentList st' = SegmentList st)
   \<and> MmpInitializePhysicalPageAllocator boot_free_type early_allocate default_settings
        [\<lparr>BaseAddress = 0, Size = 0x1000, Type = MemoryTypeReserved\<rparr>,
         \<lparr>BaseAddress = 0x1000, Size = 0x3FFF000, Type = MemoryTypeFree\<rparr>] =
      Inr (Inr (booted_mm, False))
   \<and> map (\<lambda>g. (StartAddress g, EndAddress g)) (Segments booted_mm) = [(0x1000, 0x4000000)]
   \<and> MmTotalPhysicalPages booted_mm = 16383
   \<and> MmTotalAllocatedPhysicalPages booted_mm \<ge> 1"
proof (intro conjI impI)
  assume a: "init_iteration free_type cfg d st = Inr (d', st') \<and> IS_PHYSICAL_MEMORY_TYPE (Type d) \<and>
    free_type (Type d) \<and> BaseAddress d = 0 \<and> MmLowestPhysicalPage cfg = 0 \<and>
    \<not> CurrentPage st \<and> TotalMemoryPages st = 0"
  then have r: "init_iteration free_type cfg d st = Inr (d', st')" by simp
  from a have h: "IS_PHYSICAL_MEMORY_TYPE (Type d)" "free_type (Type d)" "BaseAddress d = 0"
    "MmLowestPhysicalPage cfg = 0" "\<not> CurrentPage st" "TotalMemoryPages st = 0"
    by simp_all
  from r h have all: "MmPhysicalPageZeroAllocated st' \<and> BaseAddress d' = PAGE_SIZE \<and>
      Size d' = (if MmMaximumPhysicalAddress cfg \<noteq> 0 \<and> Size d > MmMaximumPhysicalAddress cfg
                 then MmMaximumPhysicalAddress cfg else Size d) - PAGE_SIZE \<and>
      TotalMemoryBytes st' = TotalMemoryBytes st + Size d' \<and>
      AllocatedPages st' = AllocatedPages st \<and> SegmentList st' = SegmentList st"
    by (auto simp: init_iteration_def Let_def split: if_splits)
  from all show "MmPhysicalPageZeroAllocated st'" by simp
  from all show "BaseAddress d' = PAGE_SIZE" by simp
  from all show "Size d' = (if MmMaximumPhysicalAddress cfg \<noteq> 0 \<and> Size d > MmMaximumPhysicalAddress cfg
                 then MmMaximumPhysicalAddress cfg else Size d) - PAGE_SIZE" by simp
  from all show "TotalMemoryBytes st' = TotalMemoryBytes st + Size d'" by simp
  from all show "AllocatedPages st' = AllocatedPages st" by simp
  from all show "SegmentList st' = SegmentList st" by simp
next
  show "MmpInitializePhysicalPageAllocator boot_free_type early_allocate default_settings
        [\<lparr>BaseAddress = 0, Size = 0x1000, Type = MemoryTypeReserved\<rparr>,
         \<lparr>BaseAddress = 0x1000, Size = 0x3FFF000, Type = MemoryTypeFree\<rparr>] =
      Inr (Inr (booted_mm, False))"
    by (rule e1_eval)
next
  show "map (\<lambda>g. (StartAddress g, EndAddress g)) (Segments booted_mm) = [(0x1000, 0x4000000)]"
    by (rule booted_mm_facts)
next
  show "MmTotalPhysicalPages booted_mm = 16383" by (rule booted_mm_facts)
next
  show "MmTotalAllocatedPhysicalPages booted_mm \<ge> 1"
    by (simp add: booted_mm_facts word_le_nat_alt)
qed

lemma free_type_facts:
  "IS_PHYSICAL_MEMORY_TYPE MemoryTypeFree" "boot_free_type MemoryTypeFree"
  "MmLowestPhysicalPage default_settings = 0"
  by (simp_all add: IS_PHYSICAL_MEMORY_TYPE_def boot_free_type_def default_settings_def)

theorem page_zero_truncated_witness:
  "init_iteration boot_free_type default_settings
     \<lparr>BaseAddress = 0, Size = 0x4000000, Type = MemoryTypeFree\<rparr>
     \<lparr>TotalMemoryBytes = 0, TotalSegments = 0, LastEnd = 0, CurrentPage = False,
      PagesInitialized = 0, TotalMemoryPages = 0, SegmentList = [],
      AllocatedPages = 0, NonPagedPages = 0, MmPhysicalPageZeroAllocated = False\<rparr> =
   Inr (\<lparr>BaseAddress = 0x1000, Size = 0x3FFF000, Type = MemoryTypeFree\<rparr>,
        \<lparr>TotalMemoryBytes = 0x3FFF000, TotalSegments = 1, LastEnd = 0x4000000, CurrentPage = False,
         PagesInitialized = 0, TotalMemoryPages = 0, SegmentList = [],
         AllocatedPages = 0, NonPagedPages = 0, MmPhysicalPageZeroAllocated = True\<rparr>) \<and>
   IS_PHYSICAL_MEMORY_TYPE MemoryTypeFree \<and> boot_free_type MemoryTypeFree \<and>
   MmLowestPhysicalPage default_settings = 0 \<and>
   MmpInitializePhysicalPageAllocator boot_free_type early_allocate default_settings
        [\<lparr>BaseAddress = 0, Size = 0x1000, Type = MemoryTypeReserved\<rparr>,
         \<lparr>BaseAddress = 0x1000, Size = 0x3FFF000, Type = MemoryTypeFree\<rparr>] =
      Inr (Inr (booted_mm, False))"
  using page_zero_truncated
    [of boot_free_type default_settings
        "\<lparr>BaseAddress = 0, Size = 0x4000000, Type = MemoryTypeFree\<rparr>"
        "\<lparr>TotalMemoryBytes = 0, TotalSegments = 0, LastEnd = 0, CurrentPage = False,
          PagesInitialized = 0, TotalMemoryPages = 0, SegmentList = [],
          AllocatedPages = 0, NonPagedPages = 0, MmPhysicalPageZeroAllocated = False\<rparr>"
        "\<lparr>BaseAddress = 0x1000, Size = 0x3FFF000, Type = MemoryTypeFree\<rparr>"
        "\<lparr>TotalMemoryBytes = 0x3FFF000, TotalSegments = 1, LastEnd = 0x4000000,
          CurrentPage = False, PagesInitialized = 0, TotalMemoryPages = 0, SegmentList = [],
          AllocatedPages = 0, NonPagedPages = 0, MmPhysicalPageZeroAllocated = True\<rparr>"]
    first_walk_eval free_type_facts
  by blast

text \<open>
  C9 as stated fails on the map [0..64 MiB free], where frame 0 lies in a free descriptor:
  the database has no record for the frame at address 0, the total is 16383 pages and not
  the 16384 of the descriptor, and the allocated count is just the 17 pages of the database
  itself. Frame 0 is not recorded as allocated and is not part of the page totals; only the
  flag remembers it.
\<close>

theorem page_zero_counterexample:
  "MmpInitializePhysicalPageAllocator boot_free_type early_allocate default_settings
     [\<lparr>BaseAddress = 0, Size = 0x4000000, Type = MemoryTypeFree\<rparr>] =
     Inr (Inr (booted_mm, True)) \<and>
   physical_page booted_mm 0 = None \<and>
   MmTotalPhysicalPages booted_mm = 16383 \<and>
   MmTotalAllocatedPhysicalPages booted_mm = 17"
  using zero_eval booted_mm_facts by simp

subsection \<open>Unmapping pages\<close>


lemma pte_Entry_zero: "pte_Entry 0 = 0"
  by (simp add: pte_Entry_def)


lemma pte_Entry_clear: "pte_Entry (clear_Present e) = pte_Entry e"
proof -
  have "drop_bit 12 (e AND NOT 1) = drop_bit 12 e"
  proof (rule bit_eqI)
    fix k assume "possible_bit TYPE(32 word) k"
    have "bit (drop_bit 12 (e AND NOT 1)) k \<longleftrightarrow> bit (e AND NOT 1) (12 + k)"
      by (simp only: bit_drop_bit_eq comp_apply)
    also have "\<dots> \<longleftrightarrow> bit e (12 + k)"
      by (auto simp add: bit_and_iff bit_not_iff bit_1_iff dest: bit_imp_le_length)
    also have "\<dots> \<longleftrightarrow> bit (drop_bit 12 e) k"
      by (simp only: bit_drop_bit_eq comp_apply)
    finally show "bit (drop_bit 12 (e AND NOT 1)) k \<longleftrightarrow> bit (drop_bit 12 e) k" .
  qed
  then show ?thesis by (simp add: pte_Entry_def clear_Present_def)
qed




























































end
